theory Spec2Isabelle
  imports Complex_Main
begin

section \<open>Numbers and vectors\<close>

text \<open>
  The matchers compute with a \<^verbatim>\<open>Float32Array\<close> of finite numbers, a list of reals
  (what else a typed array can hold is the matter of the section on records and profiles
  at run time). Arithmetic is exact; the one place where
  the result of a JavaScript operation is not a real, the quotient \<^verbatim>\<open>0 / 0\<close>, is
  written out as \<open>NaN\<close>. Every comparison with \<open>NaN\<close> is false.
\<close>

type_synonym Float32Array = "real list"

datatype jsnumber = NaN | Num real

fun gt :: "jsnumber \<Rightarrow> real \<Rightarrow> bool" where
  "gt NaN y = False"
| "gt (Num x) y = (y < x)"

fun numval :: "jsnumber \<Rightarrow> real" where
  "numval NaN = 0"
| "numval (Num x) = x"

record MatchResult =
  isMatch :: bool
  confidence :: real
  attendeeId :: "string option"

section \<open>The scan shared by both matchers\<close>

text \<open>
  \<^verbatim>\<open>let bestMatch = { id: '', confidence: 0 };
  existing.forEach(({ id, v }) => {
    const confidence = compare(query, v);
    if (confidence > bestMatch.confidence) bestMatch = { id, confidence };
  });\<close>
  The two hooks repeat this loop word for word; \<open>scanStep\<close> is its body and
  \<open>bestMatchScan\<close> the loop, started from the given \<open>bestMatch\<close>.
\<close>

definition scanStep :: "('v \<Rightarrow> jsnumber) \<Rightarrow> string \<times> real \<Rightarrow> string \<times> 'v \<Rightarrow> string \<times> real" where
  "scanStep compare bestMatch entry =
     (let confidence = compare (snd entry)
      in if gt confidence (snd bestMatch) then (fst entry, numval confidence) else bestMatch)"

fun bestMatchScan :: "('v \<Rightarrow> jsnumber) \<Rightarrow> string \<times> real \<Rightarrow> (string \<times> 'v) list \<Rightarrow> string \<times> real" where
  "bestMatchScan compare bestMatch [] = bestMatch"
| "bestMatchScan compare bestMatch (entry # rest) =
     bestMatchScan compare (scanStep compare bestMatch entry) rest"

definition matchResultOf :: "real \<Rightarrow> string \<times> real \<Rightarrow> MatchResult" where
  "matchResultOf threshold bestMatch =
     \<lparr> isMatch = threshold < snd bestMatch,
       confidence = snd bestMatch,
       attendeeId = (if threshold < snd bestMatch then Some (fst bestMatch) else None) \<rparr>"

definition noMatch :: MatchResult where
  "noMatch = \<lparr> isMatch = False, confidence = 0, attendeeId = None \<rparr>"

section \<open>useFaceDetection: compareFaces and findMatchingFace\<close>

text \<open>
  \<^verbatim>\<open>faceapi.euclideanDistance\<close> belongs to the face-api.js library and is a parameter
  here: \<open>None\<close> stands for a call that throws, which \<^verbatim>\<open>compareFaces\<close> catches.
\<close>

definition compareFaces ::
  "(Float32Array \<Rightarrow> Float32Array \<Rightarrow> real option) \<Rightarrow> Float32Array option \<Rightarrow> Float32Array option \<Rightarrow> real" where
  "compareFaces euclideanDistance descriptor1 descriptor2 =
     (case descriptor1 of None \<Rightarrow> 0
      | Some d1 \<Rightarrow>
         (case descriptor2 of None \<Rightarrow> 0
          | Some d2 \<Rightarrow>
             (case euclideanDistance d1 d2 of
                None \<Rightarrow> 0
              | Some distance \<Rightarrow> max 0 (1 - distance))))"

definition findMatchingFace ::
  "(Float32Array \<Rightarrow> Float32Array \<Rightarrow> real option) \<Rightarrow> bool \<Rightarrow> Float32Array option
     \<Rightarrow> (string \<times> Float32Array) list \<Rightarrow> MatchResult" where
  "findMatchingFace euclideanDistance isLoaded newDescriptor existingDescriptors =
     (if newDescriptor = None \<or> \<not> isLoaded then noMatch
      else matchResultOf 0.6
             (bestMatchScan (\<lambda>descriptor. Num (compareFaces euclideanDistance newDescriptor (Some descriptor)))
                ([], 0) existingDescriptors))"

section \<open>useImageMatching: compareImages and findMatchingImage\<close>

text \<open>
  The loop of \<^verbatim>\<open>compareImages\<close> accumulates \<^verbatim>\<open>dotProduct\<close>, \<^verbatim>\<open>norm1\<close> and
  \<^verbatim>\<open>norm2\<close> over the indices of \<^verbatim>\<open>features1\<close>; it runs only when both lengths agree.
\<close>

fun cosineLoop :: "Float32Array \<Rightarrow> Float32Array \<Rightarrow> real \<times> real \<times> real \<Rightarrow> real \<times> real \<times> real" where
  "cosineLoop (x # xs) (y # ys) (dotProduct, norm1, norm2) =
     cosineLoop xs ys (dotProduct + x * y, norm1 + x * x, norm2 + y * y)"
| "cosineLoop [] ys acc = acc"
| "cosineLoop xs [] acc = acc"

text \<open>
  \<^verbatim>\<open>similarity = dotProduct / (Math.sqrt(norm1) * Math.sqrt(norm2))\<close>: when the
  denominator is 0 one of the vectors is all zeros, the numerator is 0 as well
  (lemma \<open>cosineLoop_zero_norm\<close> below) and the quotient is \<^verbatim>\<open>0 / 0 = NaN\<close>;
  \<^verbatim>\<open>Math.max(0, NaN)\<close> is \<^verbatim>\<open>NaN\<close>.
\<close>

definition compareImages :: "Float32Array option \<Rightarrow> Float32Array option \<Rightarrow> jsnumber" where
  "compareImages features1 features2 =
     (case features1 of None \<Rightarrow> Num 0
      | Some f1 \<Rightarrow>
         (case features2 of None \<Rightarrow> Num 0
          | Some f2 \<Rightarrow>
             if length f1 \<noteq> length f2 then Num 0
             else
               (case cosineLoop f1 f2 (0, 0, 0) of
                  (dotProduct, norm1, norm2) \<Rightarrow>
                    if sqrt norm1 * sqrt norm2 = 0 then NaN
                    else
                      (let similarity = dotProduct / (sqrt norm1 * sqrt norm2)
                       in Num (max 0 ((similarity + 1) / 2))))))"

definition findMatchingImage ::
  "bool \<Rightarrow> Float32Array option \<Rightarrow> (string \<times> Float32Array) list \<Rightarrow> MatchResult" where
  "findMatchingImage isLoaded newImageFeatures existingImages =
     (if newImageFeatures = None \<or> \<not> isLoaded then noMatch
      else matchResultOf 0.75
             (bestMatchScan (\<lambda>features. compareImages newImageFeatures (Some features))
                ([], 0) existingImages))"

section \<open>The maximum pairwise confidence\<close>

text \<open>
  The specification speaks of the maximum pairwise confidence of a query against a
  catalog. \<open>spec_maxConfidence\<close> follows those words: the greatest of the confidences
  that are numbers, and 0 for a catalog that has none. It is compared with what the
  scan of the code computes.
\<close>

definition spec_pairwiseConfidences :: "('v \<Rightarrow> jsnumber) \<Rightarrow> (string \<times> 'v) list \<Rightarrow> real list" where
  "spec_pairwiseConfidences compare catalog =
     map numval (filter (\<lambda>c. c \<noteq> NaN) (map (\<lambda>entry. compare (snd entry)) catalog))"

definition spec_maxConfidence :: "('v \<Rightarrow> jsnumber) \<Rightarrow> (string \<times> 'v) list \<Rightarrow> real" where
  "spec_maxConfidence compare catalog = Max (set (0 # spec_pairwiseConfidences compare catalog))"

text \<open>
  For concrete runs of the face matcher: \<^verbatim>\<open>euclideanDistance\<close> as face-api.js has it,
  which throws when the two lengths differ and otherwise returns the square root of the
  sum of the squared differences.
\<close>

definition faceapi_euclideanDistance :: "Float32Array \<Rightarrow> Float32Array \<Rightarrow> real option" where
  "faceapi_euclideanDistance arr1 arr2 =
     (if length arr1 \<noteq> length arr2 then None
      else Some (sqrt (\<Sum>(val, val2) \<leftarrow> zip arr1 arr2. (val - val2)\<^sup>2)))"

section \<open>Data model (types/attendance.ts)\<close>

text \<open>
  The two interfaces become records; the fields carry a prefix (\<open>r_\<close> for
  \<^verbatim>\<open>AttendanceRecord\<close>, \<open>p_\<close> for \<^verbatim>\<open>AttendeeProfile\<close>) because both interfaces
  use the names \<^verbatim>\<open>id\<close>, \<^verbatim>\<open>name\<close> and \<^verbatim>\<open>email\<close>. A valid \<^verbatim>\<open>Date\<close> is its time value in
  milliseconds. An optional vector that is \<^verbatim>\<open>undefined\<close> or \<^verbatim>\<open>null\<close> is \<open>None\<close>:
  the code only ever tests such a field for truthiness.
\<close>

datatype EntryType = ENTRY | EXIT

datatype Status = IN | OUT

type_synonym Date = int

record AttendanceRecord =
  r_id :: string
  r_name :: string
  r_email :: string
  r_image :: string
  r_timestamp :: Date
  r_type :: EntryType
  r_imageFeatures :: "Float32Array option"
  r_faceDescriptor :: "Float32Array option"

record AttendeeProfile =
  p_id :: string
  p_name :: string
  p_email :: string
  p_lastImage :: string
  p_imageFeatures :: "Float32Array option"
  p_faceDescriptor :: "Float32Array option"
  p_currentStatus :: Status
  p_lastEntry :: "Date option"
  p_lastExit :: "Date option"

text \<open>\<^verbatim>\<open>Omit<AttendanceRecord, 'id' | 'timestamp'>\<close>, the argument of \<^verbatim>\<open>addRecord\<close>.\<close>

record RecordInput =
  i_name :: string
  i_email :: string
  i_image :: string
  i_type :: EntryType
  i_imageFeatures :: "Float32Array option"
  i_faceDescriptor :: "Float32Array option"

text \<open>
  \<^verbatim>\<open>Partial<AttendeeProfile> & { id: string }\<close>, the argument of \<^verbatim>\<open>updateProfile\<close>.
  An object spread copies every own property of its source, also one whose value is
  \<^verbatim>\<open>undefined\<close>, so for a property of the argument three cases are told apart: the key
  is missing (\<open>Absent\<close>), the key is there with the value \<^verbatim>\<open>undefined\<close> (\<open>Undefined\<close>),
  or it holds a value. For the four properties the interface requires (\<^verbatim>\<open>name\<close>,
  \<^verbatim>\<open>email\<close>, \<^verbatim>\<open>lastImage\<close>, \<^verbatim>\<open>currentStatus\<close>) the argument either omits the key
  (\<open>None\<close>) or supplies a value: with \<^verbatim>\<open>undefined\<close> there the stored object would no
  longer be an \<^verbatim>\<open>AttendeeProfile\<close>, and the record above cannot hold it.
\<close>

datatype 'a field = Absent | Undefined | Value 'a

record ProfileData =
  d_id :: string
  d_name :: "string option"
  d_email :: "string option"
  d_lastImage :: "string option"
  d_imageFeatures :: "Float32Array field"
  d_faceDescriptor :: "Float32Array field"
  d_currentStatus :: "Status option"
  d_lastEntry :: "Date field"
  d_lastExit :: "Date field"

section \<open>Records and profiles at run time\<close>

text \<open>
  The matchers and the pipeline compute with vectors of real numbers and with valid
  dates, and the records above hold these. The store itself keeps and writes whatever
  object it is given: the elements of a \<^verbatim>\<open>Float32Array\<close> are IEEE numbers, among them
  \<^verbatim>\<open>NaN\<close>, the two infinities and \<^verbatim>\<open>-0\<close>, and a \<^verbatim>\<open>Date\<close> may be invalid (its time
  value is \<^verbatim>\<open>NaN\<close>). \<open>Finite r\<close> is the number \<open>r\<close>, with \<open>Finite 0\<close> for \<^verbatim>\<open>+0\<close>; a
  \<open>TypedArray\<close> is a \<^verbatim>\<open>Float32Array\<close> with any elements; a \<^verbatim>\<open>Date\<close> object is a
  \<open>Date option\<close>, \<open>None\<close> when it is invalid.
\<close>

datatype number = Finite real | NegativeZero | NotANumber | PositiveInfinity | NegativeInfinity

type_synonym TypedArray = "number list"

text \<open>
  An \<^verbatim>\<open>AttendanceRecord\<close> and an \<^verbatim>\<open>AttendeeProfile\<close> as objects of the running
  program. For the optional \<^verbatim>\<open>lastEntry\<close> and \<^verbatim>\<open>lastExit\<close>, \<open>None\<close> is a missing
  property and \<open>Some None\<close> an invalid \<^verbatim>\<open>Date\<close>.
\<close>

record MemoryRecord =
  m_id :: string
  m_name :: string
  m_email :: string
  m_image :: string
  m_timestamp :: "Date option"
  m_type :: EntryType
  m_imageFeatures :: "TypedArray option"
  m_faceDescriptor :: "TypedArray option"

record MemoryProfile =
  q_id :: string
  q_name :: string
  q_email :: string
  q_lastImage :: string
  q_imageFeatures :: "TypedArray option"
  q_faceDescriptor :: "TypedArray option"
  q_currentStatus :: Status
  q_lastEntry :: "Date option option"
  q_lastExit :: "Date option option"

text \<open>A record and a profile of the kind the pipeline builds, as such objects.\<close>

definition inMemory :: "AttendanceRecord \<Rightarrow> MemoryRecord" where
  "inMemory record =
     \<lparr> m_id = r_id record, m_name = r_name record, m_email = r_email record,
       m_image = r_image record, m_timestamp = Some (r_timestamp record),
       m_type = r_type record,
       m_imageFeatures = map_option (map Finite) (r_imageFeatures record),
       m_faceDescriptor = map_option (map Finite) (r_faceDescriptor record) \<rparr>"

definition profileInMemory :: "AttendeeProfile \<Rightarrow> MemoryProfile" where
  "profileInMemory profile =
     \<lparr> q_id = p_id profile, q_name = p_name profile, q_email = p_email profile,
       q_lastImage = p_lastImage profile,
       q_imageFeatures = map_option (map Finite) (p_imageFeatures profile),
       q_faceDescriptor = map_option (map Finite) (p_faceDescriptor profile),
       q_currentStatus = p_currentStatus profile,
       q_lastEntry = map_option Some (p_lastEntry profile),
       q_lastExit = map_option Some (p_lastExit profile) \<rparr>"

section \<open>The durable blobs\<close>

text \<open>
  What \<^verbatim>\<open>JSON.parse\<close> returns, and what the loader makes of it, are values of the type
  \<open>jsvalue\<close>; a JSON document is a \<open>jsvalue\<close> without \<open>JUndefined\<close>, \<open>JDate\<close> and
  \<open>JFloat32Array\<close>. The time value of an invalid \<^verbatim>\<open>Date\<close> is \<open>None\<close>.
\<close>

datatype jsvalue =
    JUndefined
  | JNull
  | JBool bool
  | JNumber real
  | JString string
  | JArray "jsvalue list"
  | JObject "(string \<times> jsvalue) list"
  | JDate "Date option"
  | JFloat32Array TypedArray

text \<open>
  \<^verbatim>\<open>localStorage\<close> holds text under the two keys of \<^verbatim>\<open>STORAGE_KEYS\<close>. A stored text is
  represented by what \<^verbatim>\<open>JSON.parse\<close> makes of it: the empty text (which the loader
  never parses, an empty string being falsy), a text that \<^verbatim>\<open>JSON.parse\<close> rejects with a
  \<^verbatim>\<open>SyntaxError\<close>, or a text that parses to a document; \<^verbatim>\<open>JSON.stringify\<close> of a
  document is a text that parses back to it. \<open>None\<close> is a key without an item
  (\<^verbatim>\<open>getItem\<close> returns \<^verbatim>\<open>null\<close>). \<open>writable\<close> is false for a storage whose
  \<^verbatim>\<open>setItem\<close> throws (quota exceeded, storage blocked).
\<close>

datatype blob = EmptyText | NotJSON | Doc jsvalue

record Storage =
  attendance_records :: "blob option"
  attendee_profiles :: "blob option"
  writable :: bool

text \<open>
  \<^verbatim>\<open>JSON.stringify\<close> leaves out a property whose value is \<^verbatim>\<open>undefined\<close>. It writes a
  valid \<^verbatim>\<open>Date\<close> as the string \<^verbatim>\<open>toISOString\<close> gives (a parameter: the platform's
  formatting) and an invalid one as \<^verbatim>\<open>null\<close> (\<^verbatim>\<open>Date.prototype.toJSON\<close>). \<^verbatim>\<open>Array.from\<close>
  turns a \<^verbatim>\<open>Float32Array\<close> into an array of its numbers, of which \<^verbatim>\<open>JSON.stringify\<close>
  writes \<^verbatim>\<open>NaN\<close> and the infinities as \<^verbatim>\<open>null\<close> and \<^verbatim>\<open>-0\<close> as \<^verbatim>\<open>0\<close>.
\<close>

definition optionalProp :: "string \<Rightarrow> jsvalue option \<Rightarrow> (string \<times> jsvalue) list" where
  "optionalProp key v = (case v of None \<Rightarrow> [] | Some x \<Rightarrow> [(key, x)])"

fun numberJSON :: "number \<Rightarrow> jsvalue" where
  "numberJSON (Finite r) = JNumber r"
| "numberJSON NegativeZero = JNumber 0"
| "numberJSON NotANumber = JNull"
| "numberJSON PositiveInfinity = JNull"
| "numberJSON NegativeInfinity = JNull"

definition arrayFrom :: "TypedArray \<Rightarrow> jsvalue" where
  "arrayFrom v = JArray (map numberJSON v)"

definition dateJSON :: "(Date \<Rightarrow> string) \<Rightarrow> Date option \<Rightarrow> jsvalue" where
  "dateJSON toISOString d = (case d of None \<Rightarrow> JNull | Some t \<Rightarrow> JString (toISOString t))"

fun entryTypeString :: "EntryType \<Rightarrow> string" where
  "entryTypeString ENTRY = ''ENTRY''"
| "entryTypeString EXIT = ''EXIT''"

fun statusString :: "Status \<Rightarrow> string" where
  "statusString IN = ''IN''"
| "statusString OUT = ''OUT''"

definition serializeRecord :: "(Date \<Rightarrow> string) \<Rightarrow> MemoryRecord \<Rightarrow> jsvalue" where
  "serializeRecord toISOString record =
     JObject
       ([(''name'', JString (m_name record)),
         (''email'', JString (m_email record)),
         (''image'', JString (m_image record)),
         (''type'', JString (entryTypeString (m_type record)))]
        @ optionalProp ''imageFeatures'' (map_option arrayFrom (m_imageFeatures record))
        @ optionalProp ''faceDescriptor'' (map_option arrayFrom (m_faceDescriptor record))
        @ [(''id'', JString (m_id record)),
           (''timestamp'', dateJSON toISOString (m_timestamp record))])"

definition serializeProfile :: "(Date \<Rightarrow> string) \<Rightarrow> MemoryProfile \<Rightarrow> jsvalue" where
  "serializeProfile toISOString profile =
     JObject
       ([(''id'', JString (q_id profile)),
         (''name'', JString (q_name profile)),
         (''email'', JString (q_email profile)),
         (''lastImage'', JString (q_lastImage profile)),
         (''currentStatus'', JString (statusString (q_currentStatus profile)))]
        @ optionalProp ''lastEntry'' (map_option (dateJSON toISOString) (q_lastEntry profile))
        @ optionalProp ''lastExit'' (map_option (dateJSON toISOString) (q_lastExit profile))
        @ optionalProp ''imageFeatures'' (map_option arrayFrom (q_imageFeatures profile))
        @ optionalProp ''faceDescriptor'' (map_option arrayFrom (q_faceDescriptor profile)))"

text \<open>
  \<^verbatim>\<open>saveRecords\<close> and \<^verbatim>\<open>saveProfiles\<close>: the whole collection is serialized and written
  under its key; an exception of \<^verbatim>\<open>setItem\<close> is caught and logged, and the blob stays
  as it was.
\<close>

definition saveRecords :: "(Date \<Rightarrow> string) \<Rightarrow> MemoryRecord list \<Rightarrow> Storage \<Rightarrow> Storage" where
  "saveRecords toISOString newRecords storage =
     (if writable storage
      then storage\<lparr>attendance_records := Some (Doc (JArray (map (serializeRecord toISOString) newRecords)))\<rparr>
      else storage)"

definition saveProfiles :: "(Date \<Rightarrow> string) \<Rightarrow> MemoryProfile list \<Rightarrow> Storage \<Rightarrow> Storage" where
  "saveProfiles toISOString newProfiles storage =
     (if writable storage
      then storage\<lparr>attendee_profiles := Some (Doc (JArray (map (serializeProfile toISOString) newProfiles)))\<rparr>
      else storage)"

section \<open>useAttendanceStore: the operations\<close>

text \<open>
  The state of the hook: the two React state variables and \<^verbatim>\<open>localStorage\<close>. Every
  operation takes the state its closure was created with and returns the state after
  the \<^verbatim>\<open>set...\<close> and \<^verbatim>\<open>save...\<close> calls; \<^verbatim>\<open>crypto.randomUUID()\<close> and \<^verbatim>\<open>new Date()\<close>
  are passed in as \<open>uuid\<close> and \<open>now\<close>.
\<close>

record Store =
  records :: "AttendanceRecord list"
  profiles :: "AttendeeProfile list"
  localStorage :: Storage

text \<open>The object \<^verbatim>\<open>{ ...record, id: crypto.randomUUID(), timestamp: new Date() }\<close>.\<close>

definition newRecordOf :: "string \<Rightarrow> Date \<Rightarrow> RecordInput \<Rightarrow> AttendanceRecord" where
  "newRecordOf uuid now record =
     \<lparr> r_id = uuid, r_name = i_name record, r_email = i_email record,
       r_image = i_image record, r_timestamp = now, r_type = i_type record,
       r_imageFeatures = i_imageFeatures record,
       r_faceDescriptor = i_faceDescriptor record \<rparr>"

definition addRecord ::
  "(Date \<Rightarrow> string) \<Rightarrow> string \<Rightarrow> Date \<Rightarrow> RecordInput \<Rightarrow> Store \<Rightarrow> AttendanceRecord \<times> Store" where
  "addRecord toISOString uuid now record store =
     (let newRecord = newRecordOf uuid now record;
          updatedRecords = newRecord # records store
      in (newRecord,
          store\<lparr>records := updatedRecords,
                localStorage := saveRecords toISOString (map inMemory updatedRecords) (localStorage store)\<rparr>))"

text \<open>
  \<^verbatim>\<open>addRecord\<close> is a closure of the render in which the component obtained it: the
  \<^verbatim>\<open>records\<close> it spreads (part_007:80) is the state of that render. \<^verbatim>\<open>setRecords\<close>
  replaces the state for the next render; \<^verbatim>\<open>saveRecords\<close> writes the blob at once.
  \<open>addRecordsInRender\<close> is a sequence of calls made through the closures of one render:
  \<open>render\<close> is the state of that render, \<open>pending\<close> what has been set and written so
  far. Every call starts from the records of the render, so of several calls in one
  render the next render sees only what the last one set. A call is given by the UUID
  drawn, the time and the argument.
\<close>

fun addRecordsInRender ::
  "(Date \<Rightarrow> string) \<Rightarrow> (string \<times> Date \<times> RecordInput) list \<Rightarrow> Store \<Rightarrow> Store \<Rightarrow> Store" where
  "addRecordsInRender toISOString [] render pending = pending"
| "addRecordsInRender toISOString ((uuid, now, record) # calls) render pending =
     addRecordsInRender toISOString calls render
       (snd (addRecord toISOString uuid now record (pending\<lparr>records := records render\<rparr>)))"

text \<open>A run of renders, each with the calls made during it; the state a render leaves
  is the state of the next.\<close>

fun addRecordsOverRenders ::
  "(Date \<Rightarrow> string) \<Rightarrow> (string \<times> Date \<times> RecordInput) list list \<Rightarrow> Store \<Rightarrow> Store" where
  "addRecordsOverRenders toISOString [] store = store"
| "addRecordsOverRenders toISOString (calls # renders) store =
     addRecordsOverRenders toISOString renders (addRecordsInRender toISOString calls store store)"

text \<open>\<^verbatim>\<open>Array.prototype.findIndex\<close>: the index of the first element that satisfies the
  predicate, \<open>-1\<close> when there is none.\<close>

fun findIndex :: "('a \<Rightarrow> bool) \<Rightarrow> 'a list \<Rightarrow> int" where
  "findIndex P [] = - 1"
| "findIndex P (x # xs) =
     (if P x then 0 else (let i = findIndex P xs in if i < 0 then - 1 else i + 1))"

text \<open>The spread \<^verbatim>\<open>{ ...profile, ...profileData }\<close>, property by property.\<close>

fun over :: "'a \<Rightarrow> 'a option \<Rightarrow> 'a" where
  "over old None = old"
| "over old (Some v) = v"

fun overOptional :: "'a option \<Rightarrow> 'a field \<Rightarrow> 'a option" where
  "overOptional old Absent = old"
| "overOptional old Undefined = None"
| "overOptional old (Value v) = Some v"

definition spreadProfile :: "AttendeeProfile \<Rightarrow> ProfileData \<Rightarrow> AttendeeProfile" where
  "spreadProfile profile profileData =
     \<lparr> p_id = d_id profileData,
       p_name = over (p_name profile) (d_name profileData),
       p_email = over (p_email profile) (d_email profileData),
       p_lastImage = over (p_lastImage profile) (d_lastImage profileData),
       p_imageFeatures = overOptional (p_imageFeatures profile) (d_imageFeatures profileData),
       p_faceDescriptor = overOptional (p_faceDescriptor profile) (d_faceDescriptor profileData),
       p_currentStatus = over (p_currentStatus profile) (d_currentStatus profileData),
       p_lastEntry = overOptional (p_lastEntry profile) (d_lastEntry profileData),
       p_lastExit = overOptional (p_lastExit profile) (d_lastExit profileData) \<rparr>"

text \<open>The defaults of the \<^verbatim>\<open>else\<close> branch: \<^verbatim>\<open>{ name: '', email: '', lastImage: '',
  currentStatus: 'OUT', ...profileData, id: profileData.id }\<close>.\<close>

definition defaultProfile :: AttendeeProfile where
  "defaultProfile =
     \<lparr> p_id = [], p_name = [], p_email = [], p_lastImage = [],
       p_imageFeatures = None, p_faceDescriptor = None, p_currentStatus = OUT,
       p_lastEntry = None, p_lastExit = None \<rparr>"

definition updateProfile :: "(Date \<Rightarrow> string) \<Rightarrow> ProfileData \<Rightarrow> Store \<Rightarrow> Store" where
  "updateProfile toISOString profileData store =
     (let existingIndex = findIndex (\<lambda>p. p_id p = d_id profileData) (profiles store);
          updatedProfiles =
            (if 0 \<le> existingIndex
             then (profiles store)
                    [nat existingIndex := spreadProfile (profiles store ! nat existingIndex) profileData]
             else profiles store @ [spreadProfile defaultProfile profileData])
      in store\<lparr>profiles := updatedProfiles,
               localStorage := saveProfiles toISOString (map profileInMemory updatedProfiles) (localStorage store)\<rparr>)"

definition getProfile :: "Store \<Rightarrow> string \<Rightarrow> AttendeeProfile option" where
  "getProfile store ident = find (\<lambda>p. p_id p = ident) (profiles store)"

text \<open>
  \<^verbatim>\<open>getRecentRecords(limit = 50)\<close> is \<^verbatim>\<open>records.slice(0, limit)\<close>; \<open>None\<close> is a call
  without argument. \<^verbatim>\<open>slice\<close> counts a negative end from the end of the array.
\<close>

definition slice0 :: "'a list \<Rightarrow> int \<Rightarrow> 'a list" where
  "slice0 xs end = (if end < 0 then take (nat (int (length xs) + end)) xs else take (nat end) xs)"

definition getRecentRecords :: "Store \<Rightarrow> int option \<Rightarrow> AttendanceRecord list" where
  "getRecentRecords store limit = slice0 (records store) (case limit of None \<Rightarrow> 50 | Some l \<Rightarrow> l)"

definition getImageFeatures :: "Store \<Rightarrow> (string \<times> Float32Array) list" where
  "getImageFeatures store =
     map (\<lambda>p. (p_id p, the (p_imageFeatures p))) (filter (\<lambda>p. p_imageFeatures p \<noteq> None) (profiles store))"

definition clearAllData :: "Store \<Rightarrow> Store" where
  "clearAllData store =
     store\<lparr>records := [], profiles := [],
           localStorage := (localStorage store)\<lparr>attendance_records := None, attendee_profiles := None\<rparr>\<rparr>"

section \<open>getTodayEntryRecord\<close>

text \<open>
  Modelled from the spec: \<^verbatim>\<open>getTodayEntryRecord\<close>. \<^verbatim>\<open>AttendanceTracker\<close> takes it from
  \<^verbatim>\<open>useAttendanceStore()\<close> and calls it in \<^verbatim>\<open>processAttendance\<close>, but the version of the
  hook among the sources neither defines nor returns it. The specification:
  ``the most recent record for that attendee with \<^verbatim>\<open>type == ENTRY\<close> whose timestamp
  falls on the current calendar day (local time)'', or absent. The records are kept
  newest first, so the most recent such record is the first one in the sequence. A
  record has no field that names its attendee, and the specification does not say how
  a record is found to be ``for'' an attendee: \<open>forAttendee\<close> is that relation.
  \<open>localDay\<close> gives the calendar day, in local time, on which a time falls.
\<close>

definition spec_getTodayEntryRecord ::
  "(AttendanceRecord \<Rightarrow> string \<Rightarrow> bool) \<Rightarrow> (Date \<Rightarrow> int) \<Rightarrow> Date \<Rightarrow> Store \<Rightarrow> string
     \<Rightarrow> AttendanceRecord option" where
  "spec_getTodayEntryRecord forAttendee localDay now store attendee =
     find (\<lambda>record. forAttendee record attendee \<and> r_type record = ENTRY
                      \<and> localDay (r_timestamp record) = localDay now)
       (records store)"

section \<open>AttendanceTracker: processAttendance\<close>

text \<open>
  What one run of \<^verbatim>\<open>processAttendance\<close> receives from outside: the captured image and
  whether the browser can decode it (\<^verbatim>\<open>img.onload\<close> or \<^verbatim>\<open>img.onerror\<close>), the form
  data in \<^verbatim>\<open>currentUser\<close>, the two \<^verbatim>\<open>isLoaded\<close> flags, what face-api.js detects in the
  image (\<open>None\<close>: no face, or an exception, which \<^verbatim>\<open>detectFaceFromImage\<close> catches), what
  the feature extractor yields (\<open>None\<close>: the promise rejects), the two UUIDs the run may
  draw and the times of its two \<^verbatim>\<open>new Date()\<close> calls.
\<close>

record Capture =
  imageData :: string
  imageLoads :: bool
  formName :: "string option"
  formEmail :: "string option"
  faceDetectionLoaded :: bool
  detection :: "Float32Array option"
  imageMatchingLoaded :: bool
  extraction :: "Float32Array option"
  newUserId :: string
  newRecordId :: string
  profileTime :: Date
  recordTime :: Date

text \<open>
  The functions of the platform and of the libraries that the run calls:
  \<^verbatim>\<open>faceapi.euclideanDistance\<close>, the pixel comparison \<^verbatim>\<open>simpleImageCompare\<close> (it draws
  both images on a canvas; its result is a number from 0 to 1),
  \<^verbatim>\<open>String.prototype.toLowerCase\<close> and \<^verbatim>\<open>Date.prototype.toISOString\<close>.
\<close>

record Platform =
  api_euclideanDistance :: "Float32Array \<Rightarrow> Float32Array \<Rightarrow> real option"
  api_simpleImageCompare :: "string \<Rightarrow> string \<Rightarrow> real"
  api_toLowerCase :: "string \<Rightarrow> string"
  api_toISOString :: "Date \<Rightarrow> string"

datatype Outcome = Complete | CheckoutFailed | ImageError | Unhandled

datatype failure = ExtractionRejected | ProfileUndefined

datatype Identity = Known AttendeeProfile | NewUser

definition detectFaceFromImage :: "bool \<Rightarrow> Float32Array option \<Rightarrow> Float32Array option" where
  "detectFaceFromImage isLoaded detected = (if \<not> isLoaded then None else detected)"

definition extractImageFeatures :: "bool \<Rightarrow> Float32Array option \<Rightarrow> failure + Float32Array option" where
  "extractImageFeatures isLoaded extracted =
     (if \<not> isLoaded then Inr None
      else (case extracted of None \<Rightarrow> Inl ExtractionRejected | Some features \<Rightarrow> Inr (Some features)))"

text \<open>``Try face detection first (if available)'': the descriptor and \<^verbatim>\<open>matchResult\<close>.\<close>

definition faceStage :: "Platform \<Rightarrow> Capture \<Rightarrow> Store \<Rightarrow> Float32Array option \<times> MatchResult" where
  "faceStage api c store =
     (if faceDetectionLoaded c then
        (let faceDescriptor = detectFaceFromImage (faceDetectionLoaded c) (detection c)
         in if faceDescriptor \<noteq> None then
              (let existingDescriptors =
                     map (\<lambda>p. (p_id p, the (p_faceDescriptor p)))
                       (filter (\<lambda>p. p_faceDescriptor p \<noteq> None) (profiles store))
               in if 0 < length existingDescriptors then
                    (let result = findMatchingFace (api_euclideanDistance api) (faceDetectionLoaded c)
                                    faceDescriptor existingDescriptors
                     in (faceDescriptor, if isMatch result then result else noMatch))
                  else (faceDescriptor, noMatch))
            else (faceDescriptor, noMatch))
      else (None, noMatch))"

text \<open>``Try image feature extraction and matching''. A rejected extraction is an
  exception of the \<^verbatim>\<open>await\<close>, which nothing in the handler catches.\<close>

definition imageStage :: "Capture \<Rightarrow> Store \<Rightarrow> MatchResult \<Rightarrow> failure + Float32Array option \<times> MatchResult" where
  "imageStage c store matchResult =
     (if \<not> isMatch matchResult then
        (if imageMatchingLoaded c then
           (case extractImageFeatures (imageMatchingLoaded c) (extraction c) of
              Inl e \<Rightarrow> Inl e
            | Inr imageFeatures \<Rightarrow>
                if imageFeatures \<noteq> None then
                  (let imageMatchResult =
                         findMatchingImage (imageMatchingLoaded c) imageFeatures (getImageFeatures store)
                   in Inr (imageFeatures, if isMatch imageMatchResult then imageMatchResult else matchResult))
                else Inr (imageFeatures, matchResult))
         else Inr (None, matchResult))
      else Inr (None, matchResult))"

text \<open>``Fallback: Simple image comparison for existing profiles'': the same scan, over
  the profiles that have a \<^verbatim>\<open>lastImage\<close>, with the threshold 0.8.\<close>

definition simpleStage :: "Platform \<Rightarrow> Capture \<Rightarrow> Store \<Rightarrow> MatchResult \<Rightarrow> MatchResult" where
  "simpleStage api c store matchResult =
     (if \<not> isMatch matchResult \<and> 0 < length (profiles store) then
        (let bestSimpleMatch =
               bestMatchScan (\<lambda>lastImage. Num (api_simpleImageCompare api (imageData c) lastImage))
                 ([], 0)
                 (map (\<lambda>p. (p_id p, p_lastImage p)) (filter (\<lambda>p. p_lastImage p \<noteq> []) (profiles store)))
         in if 0.8 < snd bestSimpleMatch
            then \<lparr> isMatch = True, confidence = snd bestSimpleMatch,
                   attendeeId = Some (fst bestSimpleMatch) \<rparr>
            else matchResult)
      else matchResult)"

text \<open>
  ``Determine user ID'': a match with a non-empty \<^verbatim>\<open>attendeeId\<close> names a profile
  (\<^verbatim>\<open>getProfile(userId)!\<close>; were it \<^verbatim>\<open>undefined\<close>, reading \<^verbatim>\<open>currentStatus\<close> would
  throw); otherwise the profile whose email equals the form's email, case-insensitively;
  otherwise a new user.
\<close>

definition resolveIdentity :: "Platform \<Rightarrow> Capture \<Rightarrow> Store \<Rightarrow> MatchResult \<Rightarrow> failure + Identity" where
  "resolveIdentity api c store matchResult =
     (if isMatch matchResult \<and> attendeeId matchResult \<noteq> None \<and> attendeeId matchResult \<noteq> Some [] then
        (case getProfile store (the (attendeeId matchResult)) of
           None \<Rightarrow> Inl ProfileUndefined
         | Some existingProfile \<Rightarrow> Inr (Known existingProfile))
      else
        (case find (\<lambda>p. Some (api_toLowerCase api (p_email p)) = map_option (api_toLowerCase api) (formEmail c))
                (profiles store) of
           Some existingProfileByEmail \<Rightarrow> Inr (Known existingProfileByEmail)
         | None \<Rightarrow> Inr NewUser))"

text \<open>The three matching stages and the identity they lead to, with the vectors extracted
  on the way.\<close>

definition resolve ::
  "Platform \<Rightarrow> Capture \<Rightarrow> Store \<Rightarrow> failure + Identity \<times> Float32Array option \<times> Float32Array option" where
  "resolve api c store =
     (case faceStage api c store of
        (faceDescriptor, faceResult) \<Rightarrow>
          (case imageStage c store faceResult of
             Inl e \<Rightarrow> Inl e
           | Inr (imageFeatures, imageResult) \<Rightarrow>
               (case resolveIdentity api c store (simpleStage api c store imageResult) of
                  Inl e \<Rightarrow> Inl e
                | Inr identity \<Rightarrow> Inr (identity, faceDescriptor, imageFeatures))))"

text \<open>The variable \<^verbatim>\<open>userId\<close>: the id of the profile found, or the UUID drawn for a
  new user.\<close>

definition userIdOf :: "Capture \<Rightarrow> Identity \<Rightarrow> string" where
  "userIdOf c identity = (case identity of Known existingProfile \<Rightarrow> p_id existingProfile | NewUser \<Rightarrow> newUserId c)"

definition entryTypeFor :: "AttendeeProfile \<Rightarrow> EntryType" where
  "entryTypeFor existingProfile = (if p_currentStatus existingProfile = OUT then ENTRY else EXIT)"

text \<open>
  ``If trying to EXIT, validate image matches today's ENTRY'': true when the run is to be
  rejected. \<^verbatim>\<open>getTodayEntryRecord\<close> is the operation the component takes from the store.
\<close>

definition checkoutMismatch ::
  "Platform \<Rightarrow> (Store \<Rightarrow> string \<Rightarrow> AttendanceRecord option) \<Rightarrow> Capture \<Rightarrow> Store \<Rightarrow> string \<Rightarrow> bool" where
  "checkoutMismatch api getTodayEntryRecord c store userId =
     (case getTodayEntryRecord store userId of
        None \<Rightarrow> False
      | Some todayEntry \<Rightarrow> api_simpleImageCompare api (imageData c) (r_image todayEntry) < 0.7)"

text \<open>\<^verbatim>\<open>imageFeatures || existingProfile.imageFeatures\<close>\<close>

fun orElse :: "'a option \<Rightarrow> 'a option \<Rightarrow> 'a option" where
  "orElse (Some x) y = Some x"
| "orElse None y = y"

definition knownProfileData ::
  "Capture \<Rightarrow> EntryType \<Rightarrow> AttendeeProfile \<Rightarrow> Float32Array option \<Rightarrow> Float32Array option \<Rightarrow> AttendeeProfile" where
  "knownProfileData c entryType existingProfile imageFeatures faceDescriptor =
     existingProfile
       \<lparr> p_lastImage := imageData c,
         p_currentStatus := (if entryType = ENTRY then IN else OUT),
         p_lastEntry := (if entryType = ENTRY then Some (profileTime c) else p_lastEntry existingProfile),
         p_lastExit := (if entryType = ENTRY then p_lastExit existingProfile else Some (profileTime c)),
         p_imageFeatures := orElse imageFeatures (p_imageFeatures existingProfile),
         p_faceDescriptor := orElse faceDescriptor (p_faceDescriptor existingProfile) \<rparr>"

text \<open>\<^verbatim>\<open>currentUser.name || 'Unknown User'\<close>\<close>

fun orDefault :: "string option \<Rightarrow> string \<Rightarrow> string" where
  "orDefault None d = d"
| "orDefault (Some s) d = (if s = [] then d else s)"

definition newProfileData :: "Capture \<Rightarrow> Float32Array option \<Rightarrow> Float32Array option \<Rightarrow> AttendeeProfile" where
  "newProfileData c imageFeatures faceDescriptor =
     \<lparr> p_id = newUserId c,
       p_name = orDefault (formName c) ''Unknown User'',
       p_email = orDefault (formEmail c) ''unknown@example.com'',
       p_lastImage = imageData c,
       p_imageFeatures = imageFeatures,
       p_faceDescriptor = faceDescriptor,
       p_currentStatus = IN,
       p_lastEntry = Some (profileTime c),
       p_lastExit = None \<rparr>"

text \<open>
  The object \<^verbatim>\<open>profileData\<close> as the argument of \<^verbatim>\<open>updateProfile\<close>. It always has the
  keys of the required properties and the keys \<^verbatim>\<open>imageFeatures\<close> and
  \<^verbatim>\<open>faceDescriptor\<close>; a \<^verbatim>\<open>lastEntry\<close> or \<^verbatim>\<open>lastExit\<close> without a value is taken as a
  missing key. (A profile read back from storage has these keys with the value
  \<^verbatim>\<open>undefined\<close>; the two readings give the same merge whenever \<^verbatim>\<open>profileData\<close> was
  spread from the very profile that \<^verbatim>\<open>updateProfile\<close> replaces, which is the case when
  no two profiles share an id.)
\<close>

definition profileDataOf :: "AttendeeProfile \<Rightarrow> ProfileData" where
  "profileDataOf profile =
     \<lparr> d_id = p_id profile,
       d_name = Some (p_name profile),
       d_email = Some (p_email profile),
       d_lastImage = Some (p_lastImage profile),
       d_imageFeatures = (case p_imageFeatures profile of None \<Rightarrow> Undefined | Some v \<Rightarrow> Value v),
       d_faceDescriptor = (case p_faceDescriptor profile of None \<Rightarrow> Undefined | Some v \<Rightarrow> Value v),
       d_currentStatus = Some (p_currentStatus profile),
       d_lastEntry = (case p_lastEntry profile of None \<Rightarrow> Absent | Some d \<Rightarrow> Value d),
       d_lastExit = (case p_lastExit profile of None \<Rightarrow> Absent | Some d \<Rightarrow> Value d) \<rparr>"

text \<open>``Create attendance record'' and ``Update profile''.\<close>

definition writeAttendance ::
  "Platform \<Rightarrow> Capture \<Rightarrow> EntryType \<Rightarrow> AttendeeProfile \<Rightarrow> Float32Array option \<Rightarrow> Float32Array option
     \<Rightarrow> Store \<Rightarrow> Store" where
  "writeAttendance api c entryType profileData imageFeatures faceDescriptor store =
     (case addRecord (api_toISOString api) (newRecordId c) (recordTime c)
             \<lparr> i_name = p_name profileData, i_email = p_email profileData,
               i_image = imageData c, i_type = entryType,
               i_imageFeatures = imageFeatures, i_faceDescriptor = faceDescriptor \<rparr>
             store of
        (record, store') \<Rightarrow> updateProfile (api_toISOString api) (profileDataOf profileData) store')"

definition processAttendance ::
  "Platform \<Rightarrow> (Store \<Rightarrow> string \<Rightarrow> AttendanceRecord option) \<Rightarrow> Capture \<Rightarrow> Store \<Rightarrow> Outcome \<times> Store" where
  "processAttendance api getTodayEntryRecord c store =
     (if \<not> imageLoads c then (ImageError, store)
      else
        (case resolve api c store of
           Inl e \<Rightarrow> (Unhandled, store)
         | Inr (NewUser, faceDescriptor, imageFeatures) \<Rightarrow>
             (Complete,
              writeAttendance api c ENTRY (newProfileData c imageFeatures faceDescriptor)
                imageFeatures faceDescriptor store)
         | Inr (Known existingProfile, faceDescriptor, imageFeatures) \<Rightarrow>
             (let userId = p_id existingProfile;
                  entryType = entryTypeFor existingProfile
              in if entryType = EXIT \<and> checkoutMismatch api getTodayEntryRecord c store userId
                 then (CheckoutFailed, store)
                 else (Complete,
                       writeAttendance api c entryType
                         (knownProfileData c entryType existingProfile imageFeatures faceDescriptor)
                         imageFeatures faceDescriptor store))))"

section \<open>useAttendanceStore: loading on mount\<close>

text \<open>
  The effect parses both blobs and rebuilds each element with a spread and two
  constructors. Its callbacks are written for \<^verbatim>\<open>any\<close>, so they are modelled on
  arbitrary documents. What can throw inside the \<^verbatim>\<open>try\<close> block: \<^verbatim>\<open>JSON.parse\<close>
  (\<^verbatim>\<open>SyntaxError\<close>), \<^verbatim>\<open>.map\<close> on a value that is not an array, a property read on
  \<^verbatim>\<open>null\<close> (\<^verbatim>\<open>TypeError\<close>), and \<^verbatim>\<open>new Float32Array\<close> (\<^verbatim>\<open>RangeError\<close>, for an invalid
  length).
\<close>

datatype exn = SyntaxError | TypeError | RangeError
















section \<open>Loaded objects as records\<close>









section \<open>Stand-ins for concrete runs\<close>

text \<open>
  Concrete runs need some \<^verbatim>\<open>toISOString\<close>. \<open>exampleISOString\<close> is a stand-in that, like
  the real one, never returns the empty string and gives different strings for different
  times; \<open>exampleDateParse\<close> reads such a string back.
\<close>

definition exampleISOString :: "Date \<Rightarrow> string" where
  "exampleISOString t = (if t < 0 then CHR ''-'' else CHR ''+'') # replicate (nat \<bar>t\<bar>) CHR ''I''"


text \<open>A store with nothing in it and a writable storage, and an \<^verbatim>\<open>addRecord\<close> argument.\<close>

definition emptyStore :: Store where
  "emptyStore = \<lparr> records = [], profiles = [],
      localStorage = \<lparr> attendance_records = None, attendee_profiles = None, writable = True \<rparr> \<rparr>"

definition demoInput :: "string \<Rightarrow> EntryType \<Rightarrow> RecordInput" where
  "demoInput n t = \<lparr> i_name = n, i_email = n @ ''@x.com'', i_image = ''img'', i_type = t,
       i_imageFeatures = None, i_faceDescriptor = None \<rparr>"

text \<open>A stored profile, and the argument \<^verbatim>\<open>{ id: 'a', lastEntry: undefined }\<close>.\<close>

definition demoProfile :: AttendeeProfile where
  "demoProfile =
     \<lparr> p_id = ''a'', p_name = ''Ann'', p_email = ''ann@x.com'', p_lastImage = ''img'',
       p_imageFeatures = None, p_faceDescriptor = None, p_currentStatus = IN,
       p_lastEntry = Some 5, p_lastExit = None \<rparr>"

definition onlyId :: "string \<Rightarrow> ProfileData" where
  "onlyId ident =
     \<lparr> d_id = ident, d_name = None, d_email = None, d_lastImage = None,
       d_imageFeatures = Absent, d_faceDescriptor = Absent, d_currentStatus = None,
       d_lastEntry = Absent, d_lastExit = Absent \<rparr>"

text \<open>
  Stand-ins for the platform in concrete runs: lower-casing of the ASCII letters, a
  comparison of two images that looks only at the lengths of their encodings, and the
  reading ``a record is for the attendee whose id it carries'' of the specification's
  ``many records reference one profile by id''. A calendar day has 86400000 milliseconds.
\<close>

definition asciiLower :: "string \<Rightarrow> string" where
  "asciiLower s =
     map (\<lambda>ch. case map_of (zip ''ABCDEFGHIJKLMNOPQRSTUVWXYZ'' ''abcdefghijklmnopqrstuvwxyz'') ch of
                 None \<Rightarrow> ch
               | Some lower \<Rightarrow> lower) s"

definition exampleCompare :: "string \<Rightarrow> string \<Rightarrow> real" where
  "exampleCompare img1 img2 = max 0 (1 - \<bar>real (length img1) - real (length img2)\<bar> / 20)"

definition examplePlatform :: Platform where
  "examplePlatform =
     \<lparr> api_euclideanDistance = faceapi_euclideanDistance,
       api_simpleImageCompare = exampleCompare,
       api_toLowerCase = asciiLower,
       api_toISOString = exampleISOString \<rparr>"

definition byId :: "AttendanceRecord \<Rightarrow> string \<Rightarrow> bool" where
  "byId record attendee = (r_id record = attendee)"

definition utcDay :: "Date \<Rightarrow> int" where
  "utcDay t = t div 86400000"

text \<open>A store in which Ann (profile \<open>''a''\<close>) checked in at time 5, and captures by a
  user who types Ann's email while no model is loaded.\<close>

definition annEntry :: AttendanceRecord where
  "annEntry =
     \<lparr> r_id = ''a'', r_name = ''Ann'', r_email = ''ann@x.com'', r_image = ''img'',
       r_timestamp = 5, r_type = ENTRY, r_imageFeatures = None, r_faceDescriptor = None \<rparr>"

definition annInStore :: Store where
  "annInStore = emptyStore\<lparr>records := [annEntry], profiles := [demoProfile]\<rparr>"

definition captureOf :: "string \<Rightarrow> string \<Rightarrow> Capture" where
  "captureOf img mail =
     \<lparr> imageData = img, imageLoads = True, formName = Some ''Ann'', formEmail = Some mail,
       faceDetectionLoaded = False, detection = None,
       imageMatchingLoaded = False, extraction = None,
       newUserId = ''u9'', newRecordId = ''r9'', profileTime = 100, recordTime = 101 \<rparr>"







section \<open>Properties of the scan\<close>

lemma scanStep_ge: "snd best \<le> snd (scanStep cmp best e)"
  by (cases "cmp (snd e)") (auto simp: scanStep_def)

lemma bestMatchScan_ge: "snd best \<le> snd (bestMatchScan cmp best cat)"
proof (induction cat arbitrary: best)
  case Nil
  then show ?case by simp
next
  case (Cons e cat)
  have "snd best \<le> snd (scanStep cmp best e)" by (rule scanStep_ge)
  also have "\<dots> \<le> snd (bestMatchScan cmp (scanStep cmp best e) cat)" by (rule Cons.IH)
  finally show ?case by simp
qed

lemma bestMatchScan_upper:
  "e \<in> set cat \<Longrightarrow> cmp (snd e) = Num c \<Longrightarrow> c \<le> snd (bestMatchScan cmp best cat)"
proof (induction cat arbitrary: best)
  case Nil
  then show ?case by simp
next
  case (Cons a cat)
  show ?case
  proof (cases "e = a")
    case True
    with Cons.prems have "c \<le> snd (scanStep cmp best a)"
      by (auto simp: scanStep_def)
    also have "\<dots> \<le> snd (bestMatchScan cmp (scanStep cmp best a) cat)"
      by (rule bestMatchScan_ge)
    finally show ?thesis by simp
  next
    case False
    with Cons.prems have "e \<in> set cat" by simp
    from Cons.IH [OF this Cons.prems(2)] show ?thesis by simp
  qed
qed

text \<open>
  Either no entry beat the starting \<open>bestMatch\<close>, or the result is an entry of the
  catalog together with its own confidence, which is above the starting one.
\<close>

lemma bestMatchScan_attained:
  "bestMatchScan cmp best cat = best \<or>
   (\<exists>e \<in> set cat. fst e = fst (bestMatchScan cmp best cat)
        \<and> cmp (snd e) = Num (snd (bestMatchScan cmp best cat))
        \<and> snd best < snd (bestMatchScan cmp best cat))"
proof (induction cat arbitrary: best)
  case Nil
  then show ?case by simp
next
  case (Cons a cat)
  let ?b = "scanStep cmp best a"
  from Cons.IH [of ?b] show ?case
  proof
    assume eq: "bestMatchScan cmp ?b cat = ?b"
    show ?thesis
    proof (cases "gt (cmp (snd a)) (snd best)")
      case True
      then obtain c where c: "cmp (snd a) = Num c" "snd best < c"
        by (cases "cmp (snd a)") auto
      then have "?b = (fst a, c)" by (simp add: scanStep_def)
      with eq c show ?thesis by auto
    next
      case False
      then have "?b = best" by (simp add: scanStep_def)
      with eq show ?thesis by simp
    qed
  next
    assume "\<exists>e \<in> set cat. fst e = fst (bestMatchScan cmp ?b cat)
        \<and> cmp (snd e) = Num (snd (bestMatchScan cmp ?b cat))
        \<and> snd ?b < snd (bestMatchScan cmp ?b cat)"
    then obtain e where e: "e \<in> set cat" "fst e = fst (bestMatchScan cmp ?b cat)"
      "cmp (snd e) = Num (snd (bestMatchScan cmp ?b cat))" "snd ?b < snd (bestMatchScan cmp ?b cat)"
      by blast
    have "snd best \<le> snd ?b" by (rule scanStep_ge)
    with e show ?thesis by auto
  qed
qed

lemma set_spec_pairwiseConfidences:
  "set (spec_pairwiseConfidences cmp cat) = {c. \<exists>e \<in> set cat. cmp (snd e) = Num c}"
proof -
  have "\<And>x. x \<noteq> NaN \<Longrightarrow> Num (numval x) = x" by (case_tac x) auto
  then show ?thesis
    by (force simp: spec_pairwiseConfidences_def image_iff)
qed

lemma bestMatchScan_max:
  "snd (bestMatchScan cmp ([], 0) cat) = spec_maxConfidence cmp cat"
proof -
  let ?r = "bestMatchScan cmp ([], 0) cat"
  have "Max (set (0 # spec_pairwiseConfidences cmp cat)) = snd ?r"
  proof (rule Max_eqI)
    show "finite (set (0 # spec_pairwiseConfidences cmp cat))" by simp
  next
    fix y assume "y \<in> set (0 # spec_pairwiseConfidences cmp cat)"
    then consider "y = 0" | e where "e \<in> set cat" "cmp (snd e) = Num y"
      by (auto simp: set_spec_pairwiseConfidences)
    then show "y \<le> snd ?r"
    proof cases
      case 1
      with bestMatchScan_ge [of "([], 0)" cmp cat] show ?thesis by simp
    next
      case 2
      then show ?thesis by (rule bestMatchScan_upper)
    qed
  next
    from bestMatchScan_attained [of cmp "([], 0)" cat]
    show "snd ?r \<in> set (0 # spec_pairwiseConfidences cmp cat)"
      by (auto simp: set_spec_pairwiseConfidences)
  qed
  then show ?thesis by (simp add: spec_maxConfidence_def)
qed

section \<open>The matchers\<close>

lemma compareFaces_nonneg: "0 \<le> compareFaces ed a b"
  by (simp add: compareFaces_def split: option.splits)

lemma matchResultOf_attendee:
  assumes "attendeeId (matchResultOf t (bestMatchScan cmp ([], 0) cat)) = Some a" and "0 \<le> t"
  shows "\<exists>e \<in> set cat. fst e = a
            \<and> cmp (snd e) = Num (confidence (matchResultOf t (bestMatchScan cmp ([], 0) cat)))"
proof -
  let ?r = "bestMatchScan cmp ([], 0) cat"
  from assms(1) have t: "t < snd ?r" and a: "a = fst ?r"
    by (auto simp: matchResultOf_def split: if_splits)
  with assms(2) have "?r \<noteq> ([], 0)" by auto
  with bestMatchScan_attained [of cmp "([], 0)" cat]
  obtain e where "e \<in> set cat" "fst e = fst ?r" "cmp (snd e) = Num (snd ?r)" by auto
  with a show ?thesis by (auto simp: matchResultOf_def)
qed

lemma face_run:
  "findMatchingFace faceapi_euclideanDistance True (Some [1, 0]) [(''a'', [1, 0]), (''b'', [0, 1])]
     = \<lparr> isMatch = True, confidence = 1, attendeeId = Some ''a'' \<rparr>"
  by (simp add: findMatchingFace_def matchResultOf_def scanStep_def compareFaces_def
        faceapi_euclideanDistance_def)

lemma image_run:
  "findMatchingImage True (Some [1, 0]) [(''a'', [1, 0]), (''b'', [0, 1])]
     = \<lparr> isMatch = True, confidence = 1, attendeeId = Some ''a'' \<rparr>"
  by (simp add: findMatchingImage_def matchResultOf_def scanStep_def compareImages_def)

text \<open>
  Claim C10. The result of \<^verbatim>\<open>findMatchingFace\<close> and of \<^verbatim>\<open>findMatchingImage\<close> has
  \<^verbatim>\<open>attendeeId\<close> defined exactly when \<^verbatim>\<open>isMatch\<close> is true; when it is defined, it is
  the id of an entry of the catalog whose confidence against the query is the reported
  confidence, and the reported confidence is the maximum pairwise confidence.
\<close>

theorem findMatching_attendeeId:
  "((attendeeId (findMatchingFace ed loaded q cat) \<noteq> None) = isMatch (findMatchingFace ed loaded q cat))
   \<and> (\<forall>a. attendeeId (findMatchingFace ed loaded q cat) = Some a \<longrightarrow>
          (\<exists>e \<in> set cat. fst e = a
              \<and> compareFaces ed q (Some (snd e)) = confidence (findMatchingFace ed loaded q cat))
          \<and> confidence (findMatchingFace ed loaded q cat)
              = spec_maxConfidence (\<lambda>d. Num (compareFaces ed q (Some d))) cat)
   \<and> ((attendeeId (findMatchingImage loaded' q' cat') \<noteq> None) = isMatch (findMatchingImage loaded' q' cat'))
   \<and> (\<forall>a. attendeeId (findMatchingImage loaded' q' cat') = Some a \<longrightarrow>
          (\<exists>e \<in> set cat'. fst e = a
              \<and> compareImages q' (Some (snd e)) = Num (confidence (findMatchingImage loaded' q' cat')))
          \<and> confidence (findMatchingImage loaded' q' cat')
              = spec_maxConfidence (\<lambda>f. compareImages q' (Some f)) cat')"
proof (intro conjI allI impI)
  show "(attendeeId (findMatchingFace ed loaded q cat) \<noteq> None) = isMatch (findMatchingFace ed loaded q cat)"
    by (simp add: findMatchingFace_def matchResultOf_def noMatch_def)
  show "(attendeeId (findMatchingImage loaded' q' cat') \<noteq> None) = isMatch (findMatchingImage loaded' q' cat')"
    by (simp add: findMatchingImage_def matchResultOf_def noMatch_def)
next
  fix a assume a: "attendeeId (findMatchingFace ed loaded q cat) = Some a"
  then have run: "findMatchingFace ed loaded q cat
      = matchResultOf 0.6 (bestMatchScan (\<lambda>d. Num (compareFaces ed q (Some d))) ([], 0) cat)"
    by (auto simp: findMatchingFace_def noMatch_def split: if_splits)
  from a matchResultOf_attendee [of "0.6" "\<lambda>d. Num (compareFaces ed q (Some d))" cat a]
  show "\<exists>e \<in> set cat. fst e = a
              \<and> compareFaces ed q (Some (snd e)) = confidence (findMatchingFace ed loaded q cat)"
    unfolding run by auto
  show "confidence (findMatchingFace ed loaded q cat)
              = spec_maxConfidence (\<lambda>d. Num (compareFaces ed q (Some d))) cat"
    unfolding run by (simp add: matchResultOf_def bestMatchScan_max)
next
  fix a assume a: "attendeeId (findMatchingImage loaded' q' cat') = Some a"
  then have run: "findMatchingImage loaded' q' cat'
      = matchResultOf 0.75 (bestMatchScan (\<lambda>f. compareImages q' (Some f)) ([], 0) cat')"
    by (auto simp: findMatchingImage_def noMatch_def split: if_splits)
  from a matchResultOf_attendee [of "0.75" "\<lambda>f. compareImages q' (Some f)" cat' a]
  show "\<exists>e \<in> set cat'. fst e = a
              \<and> compareImages q' (Some (snd e)) = Num (confidence (findMatchingImage loaded' q' cat'))"
    unfolding run by auto
  show "confidence (findMatchingImage loaded' q' cat')
              = spec_maxConfidence (\<lambda>f. compareImages q' (Some f)) cat'"
    unfolding run by (simp add: matchResultOf_def bestMatchScan_max)
qed

theorem findMatching_attendeeId_witness:
  "attendeeId (findMatchingFace faceapi_euclideanDistance True (Some [1, 0]) [(''a'', [1, 0]), (''b'', [0, 1])]) = Some ''a''
   \<and> (\<exists>e \<in> set [(''a'', [1, 0]), (''b'', [0, 1::real])]. fst e = ''a''
          \<and> compareFaces faceapi_euclideanDistance (Some [1, 0]) (Some (snd e)) = 1)
   \<and> attendeeId (findMatchingImage True (Some [1, 0]) [(''a'', [1, 0]), (''b'', [0, 1])]) = Some ''a''
   \<and> (\<exists>e \<in> set [(''a'', [1, 0]), (''b'', [0, 1::real])]. fst e = ''a''
          \<and> compareImages (Some [1, 0]) (Some (snd e)) = Num 1)"
  using findMatching_attendeeId [of faceapi_euclideanDistance True "Some [1, 0]"
          "[(''a'', [1, 0]), (''b'', [0, 1])]" True "Some [1, 0]" "[(''a'', [1, 0]), (''b'', [0, 1])]"]
  unfolding face_run image_run by simp

text \<open>
  Claim C2, as stated, fails: both matchers start with the guard
  \<^verbatim>\<open>if (!newDescriptor || !isLoaded) return { isMatch: false, confidence: 0 }\<close>, so a
  matcher whose model is not loaded reports no match although the pairwise confidence,
  here 1, exceeds the threshold.
\<close>

theorem findMatching_threshold_counterexample:
  "compareImages (Some [1, 0]) (Some [1, 0]) = Num 1
   \<and> \<not> isMatch (findMatchingImage False (Some [1, 0]) [(''a'', [1, 0])])"
  by (simp add: compareImages_def findMatchingImage_def noMatch_def)

text \<open>
  Claim C2, amended. When the matcher's model is loaded, \<^verbatim>\<open>isMatch\<close> holds if and only
  if the maximum pairwise confidence strictly exceeds the threshold (0.6 for the face
  matcher, 0.75 for the embedding matcher), and the reported confidence is that maximum;
  a maximum equal to the threshold is not a match; an empty catalog or an absent query
  gives \<^verbatim>\<open>{isMatch: false, confidence: 0}\<close>, and so does every call on a matcher that
  is not loaded.
\<close>

theorem findMatching_threshold:
  "(loaded \<longrightarrow>
      (isMatch (findMatchingFace ed loaded (Some q) cat)
         \<longleftrightarrow> 0.6 < spec_maxConfidence (\<lambda>d. Num (compareFaces ed (Some q) (Some d))) cat)
    \<and> confidence (findMatchingFace ed loaded (Some q) cat)
         = spec_maxConfidence (\<lambda>d. Num (compareFaces ed (Some q) (Some d))) cat
    \<and> (isMatch (findMatchingImage loaded (Some q) cat)
         \<longleftrightarrow> 0.75 < spec_maxConfidence (\<lambda>f. compareImages (Some q) (Some f)) cat)
    \<and> confidence (findMatchingImage loaded (Some q) cat)
         = spec_maxConfidence (\<lambda>f. compareImages (Some q) (Some f)) cat)
   \<and> (spec_maxConfidence (\<lambda>d. Num (compareFaces ed (Some q) (Some d))) cat = 0.6
        \<longrightarrow> \<not> isMatch (findMatchingFace ed loaded (Some q) cat))
   \<and> (spec_maxConfidence (\<lambda>f. compareImages (Some q) (Some f)) cat = 0.75
        \<longrightarrow> \<not> isMatch (findMatchingImage loaded (Some q) cat))
   \<and> findMatchingFace ed loaded (Some q) [] = noMatch
   \<and> findMatchingFace ed loaded None cat = noMatch
   \<and> findMatchingImage loaded (Some q) [] = noMatch
   \<and> findMatchingImage loaded None cat = noMatch
   \<and> (\<not> loaded \<longrightarrow> findMatchingFace ed loaded (Some q) cat = noMatch
                   \<and> findMatchingImage loaded (Some q) cat = noMatch)"
  by (simp add: findMatchingFace_def findMatchingImage_def matchResultOf_def noMatch_def
        bestMatchScan_max)

theorem findMatching_threshold_witness:
  "isMatch (findMatchingFace faceapi_euclideanDistance True (Some [1, 0]) [(''a'', [1, 0]), (''b'', [0, 1])])
   \<and> (0.6 :: real) < spec_maxConfidence (\<lambda>d. Num (compareFaces faceapi_euclideanDistance (Some [1, 0]) (Some d)))
                 [(''a'', [1, 0]), (''b'', [0, 1])]
   \<and> isMatch (findMatchingImage True (Some [1, 0]) [(''a'', [1, 0]), (''b'', [0, 1])])
   \<and> (0.75 :: real) < spec_maxConfidence (\<lambda>f. compareImages (Some [1, 0]) (Some f))
                 [(''a'', [1, 0]), (''b'', [0, 1])]"
  using findMatching_threshold [of True faceapi_euclideanDistance "[1, 0]" "[(''a'', [1, 0]), (''b'', [0, 1])]"]
  unfolding face_run image_run by simp

section \<open>The cosine confidence\<close>

lemma cosineLoop_sums:
  "length xs = length ys \<Longrightarrow>
   cosineLoop xs ys (d, n1, n2) =
     (d + (\<Sum>(x, y) \<leftarrow> zip xs ys. x * y), n1 + (\<Sum>x \<leftarrow> xs. x * x), n2 + (\<Sum>y \<leftarrow> ys. y * y))"
  by (induction xs ys arbitrary: d n1 n2 rule: list_induct2) (simp_all add: algebra_simps)

lemma sum_squares_zero:
  fixes xs :: "real list"
  assumes "(\<Sum>x \<leftarrow> xs. x * x) = 0"
  shows "\<forall>x \<in> set xs. x = 0"
proof -
  have "\<forall>y \<in> set (map (\<lambda>x. x * x) xs). y = 0"
    using assms by (subst (asm) sum_list_nonneg_eq_0_iff) auto
  then show ?thesis by auto
qed

lemma dot_zero_left:
  fixes xs :: "real list"
  shows "\<forall>x \<in> set xs. x = 0 \<Longrightarrow> (\<Sum>(x, y) \<leftarrow> zip xs ys. x * y) = 0"
  by (induction xs arbitrary: ys) (auto simp: zip_Cons1 split: list.splits)

lemma dot_zero_right:
  fixes ys :: "real list"
  shows "\<forall>y \<in> set ys. y = 0 \<Longrightarrow> (\<Sum>(x, y) \<leftarrow> zip xs ys. x * y) = 0"
  by (induction ys arbitrary: xs) (auto simp: zip_Cons split: list.splits)

lemma cosineLoop_zero_norm:
  assumes "length xs = length ys" and "cosineLoop xs ys (0, 0, 0) = (d, n1, n2)"
    and "sqrt n1 * sqrt n2 = 0"
  shows "d = 0"
proof -
  from assms(1,2) have d: "d = (\<Sum>(x, y) \<leftarrow> zip xs ys. x * y)"
    and n1: "n1 = (\<Sum>x \<leftarrow> xs. x * x)" and n2: "n2 = (\<Sum>y \<leftarrow> ys. y * y)"
    by (simp_all add: cosineLoop_sums)
  from assms(3) have "n1 = 0 \<or> n2 = 0" by simp
  then show ?thesis
  proof
    assume "n1 = 0"
    with n1 have "\<forall>x \<in> set xs. x = 0" by (intro sum_squares_zero) simp
    then show ?thesis unfolding d by (rule dot_zero_left)
  next
    assume "n2 = 0"
    with n2 have "\<forall>y \<in> set ys. y = 0" by (intro sum_squares_zero) simp
    then show ?thesis unfolding d by (rule dot_zero_right)
  qed
qed

text \<open>
  What \<^verbatim>\<open>compareImages\<close> returns: 0 when a vector is absent or the lengths differ; for
  two vectors of equal length whose norms are not 0, the cosine formula; and whenever it
  returns a number, that number is between 0 and 1 (by the Cauchy-Schwarz inequality).
\<close>

lemma compareImages_absent:
  "features1 = None \<or> features2 = None \<or> length (the features1) \<noteq> length (the features2)
     \<Longrightarrow> compareImages features1 features2 = Num 0"
  by (auto simp: compareImages_def split: option.splits)

lemma compareImages_cosine:
  assumes "length f1 = length f2"
    and "sqrt (\<Sum>x \<leftarrow> f1. x * x) * sqrt (\<Sum>y \<leftarrow> f2. y * y) \<noteq> 0"
  shows "compareImages (Some f1) (Some f2)
     = Num (max 0 (((\<Sum>(x, y) \<leftarrow> zip f1 f2. x * y)
                      / (sqrt (\<Sum>x \<leftarrow> f1. x * x) * sqrt (\<Sum>y \<leftarrow> f2. y * y)) + 1) / 2))"
  using assms by (simp add: compareImages_def cosineLoop_sums)

lemma cauchy_schwarz_step:
  fixes x y d a b :: real
  assumes "d\<^sup>2 \<le> a * b" "0 \<le> a" "0 \<le> b"
  shows "(d + x * y)\<^sup>2 \<le> (a + x * x) * (b + y * y)"
proof -
  have "\<bar>d\<bar> \<le> sqrt (a * b)"
    using assms(1) by (metis real_sqrt_abs real_sqrt_le_iff)
  then have d: "\<bar>d\<bar> \<le> sqrt a * sqrt b"
    by (simp add: real_sqrt_mult)
  have "2 * (x * y) * d \<le> 2 * (\<bar>x\<bar> * \<bar>y\<bar>) * \<bar>d\<bar>"
    by (metis abs_ge_self abs_mult abs_numeral mult.commute)
  also have "\<dots> \<le> 2 * (\<bar>x\<bar> * \<bar>y\<bar>) * (sqrt a * sqrt b)"
    using d by (intro mult_left_mono) auto
  also have "\<dots> = 2 * (\<bar>x\<bar> * sqrt b) * (\<bar>y\<bar> * sqrt a)"
    by simp
  also have "\<dots> \<le> (\<bar>x\<bar> * sqrt b)\<^sup>2 + (\<bar>y\<bar> * sqrt a)\<^sup>2"
    by (rule sum_squares_bound)
  also have "\<dots> = x * x * b + y * y * a"
    using assms(2,3) by (simp add: power_mult_distrib power2_eq_square [symmetric])
  finally have "2 * (x * y) * d \<le> x * x * b + y * y * a" .
  moreover have "(d + x * y)\<^sup>2 = d\<^sup>2 + 2 * (x * y) * d + x * x * (y * y)"
    by (simp add: power2_eq_square algebra_simps)
  moreover have "(a + x * x) * (b + y * y) = a * b + (x * x * b + y * y * a) + x * x * (y * y)"
    by (simp add: algebra_simps)
  ultimately show ?thesis using assms(1) by linarith
qed

lemma cosineLoop_bound:
  assumes "length xs = length ys" "d\<^sup>2 \<le> a * b" "0 \<le> a" "0 \<le> b"
    and "cosineLoop xs ys (d, a, b) = (d', a', b')"
  shows "d'\<^sup>2 \<le> a' * b' \<and> 0 \<le> a' \<and> 0 \<le> b'"
  using assms
proof (induction xs ys arbitrary: d a b rule: list_induct2)
  case Nil
  then show ?case by simp
next
  case (Cons x xs y ys)
  have "(d + x * y)\<^sup>2 \<le> (a + x * x) * (b + y * y)"
    using Cons.prems(1-3) by (rule cauchy_schwarz_step)
  moreover have "0 \<le> a + x * x" "0 \<le> b + y * y"
    using Cons.prems(2,3) by simp_all
  moreover have "cosineLoop xs ys (d + x * y, a + x * x, b + y * y) = (d', a', b')"
    using Cons.prems(4) by simp
  ultimately show ?case by (rule Cons.IH)
qed

lemma compareImages_range:
  assumes "compareImages features1 features2 = Num c"
  shows "0 \<le> c \<and> c \<le> 1"
proof (cases "\<exists>f1 f2. features1 = Some f1 \<and> features2 = Some f2 \<and> length f1 = length f2")
  case False
  with assms have "c = 0"
    by (auto simp: compareImages_def split: option.splits if_splits)
  then show ?thesis by simp
next
  case True
  then obtain f1 f2 where f: "features1 = Some f1" "features2 = Some f2" "length f1 = length f2"
    by blast
  obtain d a b where loop: "cosineLoop f1 f2 (0, 0, 0) = (d, a, b)"
    by (cases "cosineLoop f1 f2 (0, 0, 0)") auto
  from cosineLoop_bound [OF f(3) _ _ _ loop] have bound: "d\<^sup>2 \<le> a * b" "0 \<le> a" "0 \<le> b"
    by simp_all
  from assms f loop have nz: "sqrt a * sqrt b \<noteq> 0"
    and c: "c = max 0 ((d / (sqrt a * sqrt b) + 1) / 2)"
    by (auto simp: compareImages_def Let_def split: if_splits)
  define q where "q = sqrt a * sqrt b"
  from bound nz have pos: "0 < q"
    by (simp add: q_def less_le)
  have "\<bar>d\<bar> \<le> sqrt (a * b)"
    using bound(1) by (metis real_sqrt_abs real_sqrt_le_iff)
  then have "\<bar>d\<bar> \<le> q"
    by (simp add: q_def real_sqrt_mult)
  then have "- q \<le> d" "d \<le> q"
    by linarith+
  with pos have "- 1 \<le> d / q" "d / q \<le> 1"
    by (simp_all add: pos_le_divide_eq pos_divide_le_eq)
  with c show ?thesis by (auto simp: q_def)
qed

lemma compareImages_NaN_iff:
  "compareImages features1 features2 = NaN \<longleftrightarrow>
     (\<exists>f1 f2. features1 = Some f1 \<and> features2 = Some f2 \<and> length f1 = length f2
        \<and> ((\<forall>x \<in> set f1. x = 0) \<or> (\<forall>y \<in> set f2. y = 0)))"
proof -
  have zero: "(\<Sum>x \<leftarrow> xs. x * x) = 0 \<longleftrightarrow> (\<forall>x \<in> set xs. x = 0)" for xs :: "real list"
  proof
    assume "(\<Sum>x \<leftarrow> xs. x * x) = 0"
    then show "\<forall>x \<in> set xs. x = 0" by (rule sum_squares_zero)
  next
    assume "\<forall>x \<in> set xs. x = 0"
    then show "(\<Sum>x \<leftarrow> xs. x * x) = 0" by (induction xs) auto
  qed
  show ?thesis
    by (auto simp: compareImages_def cosineLoop_sums zero split: option.splits)
qed

text \<open>
  Claim C9 says that the confidence \<^verbatim>\<open>compareImages\<close> returns is in all cases a value
  in [0,1]; the code's own comment reads \<^verbatim>\<open>// Convert to confidence score (0-1)\<close>.
  For two vectors of equal length one of which has norm 0 (all components 0, or both
  vectors empty) the code divides 0 by 0 and returns \<^verbatim>\<open>NaN\<close>; by the lemmas above
  these are the only inputs on which the claim fails.
\<close>

theorem compareImages_zero_vector:
  "compareImages (Some [0, 0]) (Some [1, 0]) = NaN \<and> compareImages (Some []) (Some []) = NaN"
  by (simp add: compareImages_def)

section \<open>The attendance store: records\<close>

lemma addRecord_records:
  "records (snd (addRecord fmt uuid now input s)) = newRecordOf uuid now input # records s"
  by (simp add: addRecord_def Let_def)

lemma addRecord_result: "fst (addRecord fmt uuid now input s) = newRecordOf uuid now input"
  by (simp add: addRecord_def Let_def)

text \<open>Of the calls made during one render only the last one counts.\<close>

lemma addRecordsInRender_records:
  "records (addRecordsInRender fmt calls render pending)
     = (case rev calls of
          [] \<Rightarrow> records pending
        | (uuid, now, input) # earlier \<Rightarrow> newRecordOf uuid now input # records render)"
proof (induction calls arbitrary: pending)
  case Nil
  then show ?case by simp
next
  case (Cons call calls)
  obtain uuid now input where call: "call = (uuid, now, input)"
    by (cases call) auto
  show ?case
  proof (cases "rev calls")
    case Nil
    then show ?thesis
      by (simp add: call addRecord_records)
  next
    case (Cons last earlier)
    then show ?thesis
      using Cons.IH by (simp add: call)
  qed
qed

text \<open>With one call in each render the records pile up, the newest first.\<close>

lemma addRecordsOverRenders_single:
  "records (addRecordsOverRenders fmt (map (\<lambda>call. [call]) calls) s)
     = rev (map (\<lambda>(uuid, now, input). newRecordOf uuid now input) calls) @ records s"
  by (induction calls arbitrary: s) (auto simp: addRecord_records)

lemma take_rev_append:
  "k \<le> length xs \<Longrightarrow> take k (rev xs @ ys) = rev (drop (length xs - k) xs)"
  by (simp add: take_rev)

lemma addRecord_one_per_render:
  assumes "0 \<le> k" and "k \<le> int (length calls)"
  shows "getRecentRecords (addRecordsOverRenders fmt (map (\<lambda>call. [call]) calls) s) (Some k)
          = rev (drop (length calls - nat k) (map (\<lambda>(uuid, now, input). newRecordOf uuid now input) calls))"
proof -
  let ?new = "map (\<lambda>(uuid, now, input). newRecordOf uuid now input) calls"
  from assms have "nat k \<le> length ?new" by auto
  then have "take (nat k) (rev ?new @ records s) = rev (drop (length ?new - nat k) ?new)"
    by (rule take_rev_append)
  with assms show ?thesis
    by (auto simp: getRecentRecords_def slice0_def addRecordsOverRenders_single)
qed

text \<open>
  Claim C6 says that after inserting N records \<^verbatim>\<open>getRecentRecords(k)\<close> returns the last
  k inserted, for every k up to N; the repository's test of this property inserts 25
  records in one \<^verbatim>\<open>act\<close> and expects 25. The code keeps that promise only when the
  component renders between the insertions. Here two records are inserted into the
  empty store during one render: the second call spreads the same empty \<^verbatim>\<open>records\<close>
  as the first, the store ends with the second record alone, and
  \<^verbatim>\<open>getRecentRecords(2)\<close> returns one record.
\<close>

theorem addRecord_same_render:
  "map r_name
     (getRecentRecords
        (addRecordsOverRenders exampleISOString
           [[(''u0'', 10, demoInput ''User 0'' ENTRY), (''u1'', 11, demoInput ''User 1'' EXIT)]]
           emptyStore)
        (Some 2))
     = [''User 1'']"
  by (simp add: getRecentRecords_def slice0_def addRecord_def newRecordOf_def emptyStore_def
        demoInput_def Let_def)

section \<open>The attendance store: profiles\<close>

lemma findIndex_ge: "- 1 \<le> findIndex P xs"
  by (induction xs) (auto simp: Let_def)

lemma findIndex_neg_iff: "findIndex P xs < 0 \<longleftrightarrow> (\<forall>x \<in> set xs. \<not> P x)"
  using findIndex_ge [of P] by (induction xs) (auto simp: Let_def)

lemma findIndex_nonneg:
  "0 \<le> findIndex P xs \<Longrightarrow>
     nat (findIndex P xs) < length xs \<and> P (xs ! nat (findIndex P xs))
     \<and> (\<forall>j < nat (findIndex P xs). \<not> P (xs ! j))"
proof (induction xs)
  case Nil
  then show ?case by simp
next
  case (Cons x xs)
  show ?case
  proof (cases "P x")
    case True
    then show ?thesis by simp
  next
    case False
    with Cons.prems have nn: "0 \<le> findIndex P xs" and eq: "findIndex P (x # xs) = findIndex P xs + 1"
      by (auto simp: Let_def split: if_splits)
    from eq nn have n: "nat (findIndex P (x # xs)) = Suc (nat (findIndex P xs))" by simp
    from Cons.IH [OF nn] False show ?thesis
      unfolding n by (auto simp: nth_Cons split: nat.splits)
  qed
qed

lemma find_findIndex:
  "find P xs = (if findIndex P xs < 0 then None else Some (xs ! nat (findIndex P xs)))"
proof (induction xs)
  case Nil
  then show ?case by simp
next
  case (Cons x xs)
  show ?case
  proof (cases "P x")
    case True
    then show ?thesis by simp
  next
    case False
    show ?thesis
    proof (cases "findIndex P xs < 0")
      case True
      with False Cons.IH show ?thesis by (simp add: Let_def)
    next
      case nn: False
      then have "nat (findIndex P xs + 1) = Suc (nat (findIndex P xs))" by simp
      with nn False Cons.IH show ?thesis by (simp add: Let_def)
    qed
  qed
qed

lemma find_update_first:
  "i < length xs \<Longrightarrow> \<forall>j < i. \<not> P (xs ! j) \<Longrightarrow> P v \<Longrightarrow> find P (xs[i := v]) = Some v"
proof (induction xs arbitrary: i)
  case Nil
  then show ?case by simp
next
  case (Cons x xs)
  show ?case
  proof (cases i)
    case 0
    with Cons.prems show ?thesis by simp
  next
    case (Suc k)
    with Cons.prems have "\<not> P x" "k < length xs" "\<forall>j < k. \<not> P (xs ! j)" by auto
    with Cons.IH [of k] Cons.prems(3) Suc show ?thesis by simp
  qed
qed

lemma find_update_other:
  "i < length xs \<Longrightarrow> \<not> Q (xs ! i) \<Longrightarrow> \<not> Q v \<Longrightarrow> find Q (xs[i := v]) = find Q xs"
proof (induction xs arbitrary: i)
  case Nil
  then show ?case by simp
next
  case (Cons x xs)
  then show ?case by (cases i) auto
qed

lemma find_append_other: "\<not> Q v \<Longrightarrow> find Q (xs @ [v]) = find Q xs"
  by (induction xs) auto

lemma find_append_new: "find P xs = None \<Longrightarrow> P v \<Longrightarrow> find P (xs @ [v]) = Some v"
  by (induction xs) (auto split: if_splits)

lemma spreadProfile_id: "p_id (spreadProfile old pd) = d_id pd"
  by (simp add: spreadProfile_def)

lemma records_updateProfile: "records (updateProfile fmt pd s) = records s"
  by (simp add: updateProfile_def Let_def)

lemma updateProfile_existing:
  assumes "getProfile s (d_id pd) = Some old"
  shows "getProfile (updateProfile fmt pd s) (d_id pd) = Some (spreadProfile old pd)"
    and "length (profiles (updateProfile fmt pd s)) = length (profiles s)"
    and "a \<noteq> d_id pd \<Longrightarrow> getProfile (updateProfile fmt pd s) a = getProfile s a"
proof -
  let ?P = "\<lambda>p. p_id p = d_id pd"
  let ?i = "findIndex ?P (profiles s)"
  from assms have nn: "0 \<le> ?i" and old: "old = profiles s ! nat ?i"
    by (auto simp: getProfile_def find_findIndex split: if_splits)
  note fi = findIndex_nonneg [OF nn]
  have upd: "profiles (updateProfile fmt pd s) = (profiles s)[nat ?i := spreadProfile old pd]"
    using nn old by (simp add: updateProfile_def Let_def)
  show "getProfile (updateProfile fmt pd s) (d_id pd) = Some (spreadProfile old pd)"
    unfolding getProfile_def upd using fi
    by (intro find_update_first) (auto simp: spreadProfile_id)
  show "length (profiles (updateProfile fmt pd s)) = length (profiles s)"
    unfolding upd by simp
  show "getProfile (updateProfile fmt pd s) a = getProfile s a" if "a \<noteq> d_id pd"
    unfolding getProfile_def upd using fi that
    by (intro find_update_other) (auto simp: spreadProfile_id)
qed

lemma updateProfile_new:
  assumes "getProfile s (d_id pd) = None"
  shows "profiles (updateProfile fmt pd s) = profiles s @ [spreadProfile defaultProfile pd]"
  using assms by (auto simp: getProfile_def find_findIndex updateProfile_def Let_def split: if_splits)

text \<open>
  Claim C5, as stated, fails in its middle part: a property supplied with the value
  \<^verbatim>\<open>undefined\<close> does erase the existing value, because the spread
  \<^verbatim>\<open>{ ...profile, ...profileData }\<close> copies it like any other property. Here the stored
  profile has \<^verbatim>\<open>lastEntry\<close> set and \<^verbatim>\<open>updateProfile({ id: 'a', lastEntry: undefined })\<close>
  leaves it without one.
\<close>

theorem updateProfile_undefined_counterexample:
  "getProfile (emptyStore\<lparr>profiles := [demoProfile]\<rparr>) ''a'' = Some demoProfile
   \<and> p_lastEntry demoProfile = Some 5
   \<and> map p_lastEntry (profiles (updateProfile exampleISOString ((onlyId ''a'')\<lparr>d_lastEntry := Undefined\<rparr>)
          (emptyStore\<lparr>profiles := [demoProfile]\<rparr>))) = [None]"
  by (simp add: getProfile_def emptyStore_def demoProfile_def onlyId_def updateProfile_def
        spreadProfile_def Let_def)

lemma updateProfile_at:
  assumes "i < length (profiles s)" and "p_id (profiles s ! i) = d_id pd"
    and "\<forall>j < i. p_id (profiles s ! j) \<noteq> d_id pd"
  shows "profiles (updateProfile fmt pd s) = (profiles s)[i := spreadProfile (profiles s ! i) pd]"
proof -
  let ?P = "\<lambda>p. p_id p = d_id pd"
  let ?k = "findIndex ?P (profiles s)"
  from assms(1) have "profiles s ! i \<in> set (profiles s)"
    by (rule nth_mem)
  with assms(2) have "\<not> (\<forall>x \<in> set (profiles s). \<not> ?P x)"
    by blast
  then have nn: "0 \<le> ?k"
    using findIndex_neg_iff [of ?P "profiles s"] by auto
  from findIndex_nonneg [OF nn] have k: "nat ?k < length (profiles s)" "?P (profiles s ! nat ?k)"
    "\<forall>j < nat ?k. \<not> ?P (profiles s ! j)"
    by auto
  have "nat ?k = i"
  proof (rule ccontr)
    assume "nat ?k \<noteq> i"
    then consider "nat ?k < i" | "i < nat ?k" by linarith
    then show False
    proof cases
      case 1
      with assms(3) k(2) show False by auto
    next
      case 2
      with k(3) assms(2) show False by auto
    qed
  qed
  with nn show ?thesis
    by (simp add: updateProfile_def Let_def)
qed

lemma updateProfile_none:
  assumes "\<forall>p \<in> set (profiles s). p_id p \<noteq> d_id pd"
  shows "profiles (updateProfile fmt pd s) = profiles s @ [spreadProfile defaultProfile pd]"
proof -
  from assms have "findIndex (\<lambda>p. p_id p = d_id pd) (profiles s) < 0"
    by (simp add: findIndex_neg_iff)
  then show ?thesis
    by (simp add: updateProfile_def Let_def)
qed

text \<open>
  Claim C5, amended. Where a profile with the id of the argument exists, the first such
  profile, and no other, is replaced by the merge in which every property the argument
  gives a value wins; an optional property (\<^verbatim>\<open>imageFeatures\<close>, \<^verbatim>\<open>faceDescriptor\<close>,
  \<^verbatim>\<open>lastEntry\<close>, \<^verbatim>\<open>lastExit\<close>) that is present with the value \<^verbatim>\<open>undefined\<close> wins as
  well and erases the stored value; only the properties missing from the argument keep
  the stored values. Where no profile with that id exists, one is appended after the
  others: the defaults \<^verbatim>\<open>name = ''\<close>, \<^verbatim>\<open>email = ''\<close>, \<^verbatim>\<open>lastImage = ''\<close>,
  \<^verbatim>\<open>currentStatus = OUT\<close> overlaid in the same way with the properties of the
  argument. The records are not touched.
\<close>

theorem updateProfile_merge:
  "(\<forall>i. i < length (profiles s) \<and> p_id (profiles s ! i) = d_id pd
         \<and> (\<forall>j < i. p_id (profiles s ! j) \<noteq> d_id pd)
       \<longrightarrow> profiles (updateProfile fmt pd s) = (profiles s)[i := spreadProfile (profiles s ! i) pd])
   \<and> ((\<forall>p \<in> set (profiles s). p_id p \<noteq> d_id pd)
       \<longrightarrow> profiles (updateProfile fmt pd s) = profiles s @ [spreadProfile defaultProfile pd])
   \<and> records (updateProfile fmt pd s) = records s
   \<and> p_id (spreadProfile old pd) = d_id pd
   \<and> p_name (spreadProfile old pd) = (case d_name pd of None \<Rightarrow> p_name old | Some v \<Rightarrow> v)
   \<and> p_email (spreadProfile old pd) = (case d_email pd of None \<Rightarrow> p_email old | Some v \<Rightarrow> v)
   \<and> p_lastImage (spreadProfile old pd) = (case d_lastImage pd of None \<Rightarrow> p_lastImage old | Some v \<Rightarrow> v)
   \<and> p_currentStatus (spreadProfile old pd)
       = (case d_currentStatus pd of None \<Rightarrow> p_currentStatus old | Some v \<Rightarrow> v)
   \<and> p_imageFeatures (spreadProfile old pd)
       = (case d_imageFeatures pd of Absent \<Rightarrow> p_imageFeatures old | Undefined \<Rightarrow> None | Value v \<Rightarrow> Some v)
   \<and> p_faceDescriptor (spreadProfile old pd)
       = (case d_faceDescriptor pd of Absent \<Rightarrow> p_faceDescriptor old | Undefined \<Rightarrow> None | Value v \<Rightarrow> Some v)
   \<and> p_lastEntry (spreadProfile old pd)
       = (case d_lastEntry pd of Absent \<Rightarrow> p_lastEntry old | Undefined \<Rightarrow> None | Value v \<Rightarrow> Some v)
   \<and> p_lastExit (spreadProfile old pd)
       = (case d_lastExit pd of Absent \<Rightarrow> p_lastExit old | Undefined \<Rightarrow> None | Value v \<Rightarrow> Some v)
   \<and> p_name defaultProfile = [] \<and> p_email defaultProfile = [] \<and> p_lastImage defaultProfile = []
   \<and> p_currentStatus defaultProfile = OUT
   \<and> p_imageFeatures defaultProfile = None \<and> p_faceDescriptor defaultProfile = None
   \<and> p_lastEntry defaultProfile = None \<and> p_lastExit defaultProfile = None"
proof -
  have fields: "over x y = (case y of None \<Rightarrow> x | Some v \<Rightarrow> v)" for x :: 'a and y
    by (cases y) auto
  have ofields: "overOptional x z = (case z of Absent \<Rightarrow> x | Undefined \<Rightarrow> None | Value v \<Rightarrow> Some v)"
    for x :: "'b option" and z
    by (cases z) auto
  have at: "\<forall>i. i < length (profiles s) \<and> p_id (profiles s ! i) = d_id pd
         \<and> (\<forall>j < i. p_id (profiles s ! j) \<noteq> d_id pd)
       \<longrightarrow> profiles (updateProfile fmt pd s) = (profiles s)[i := spreadProfile (profiles s ! i) pd]"
    using updateProfile_at [where s = s and pd = pd and fmt = fmt] by blast
  have none: "(\<forall>p \<in> set (profiles s). p_id p \<noteq> d_id pd)
       \<longrightarrow> profiles (updateProfile fmt pd s) = profiles s @ [spreadProfile defaultProfile pd]"
    using updateProfile_none [where s = s and pd = pd and fmt = fmt] by blast
  from at none show ?thesis
    by (simp add: records_updateProfile spreadProfile_def defaultProfile_def fields ofields)
qed

theorem updateProfile_merge_witness:
  "(0::nat) < length (profiles (emptyStore\<lparr>profiles := [demoProfile, demoProfile]\<rparr>))
   \<and> p_id (profiles (emptyStore\<lparr>profiles := [demoProfile, demoProfile]\<rparr>) ! 0)
       = d_id ((onlyId ''a'')\<lparr>d_currentStatus := Some OUT, d_lastExit := Value 9\<rparr>)
   \<and> map p_currentStatus (profiles (updateProfile exampleISOString
          ((onlyId ''a'')\<lparr>d_currentStatus := Some OUT, d_lastExit := Value 9\<rparr>)
          (emptyStore\<lparr>profiles := [demoProfile, demoProfile]\<rparr>))) = [OUT, IN]
   \<and> map p_lastExit (profiles (updateProfile exampleISOString
          ((onlyId ''a'')\<lparr>d_currentStatus := Some OUT, d_lastExit := Value 9\<rparr>)
          (emptyStore\<lparr>profiles := [demoProfile, demoProfile]\<rparr>))) = [Some 9, None]
   \<and> map p_id (profiles (updateProfile exampleISOString (onlyId ''b'')
          (emptyStore\<lparr>profiles := [demoProfile]\<rparr>))) = [''a'', ''b'']
   \<and> map p_currentStatus (profiles (updateProfile exampleISOString (onlyId ''b'')
          (emptyStore\<lparr>profiles := [demoProfile]\<rparr>))) = [IN, OUT]"
proof -
  let ?s = "emptyStore\<lparr>profiles := [demoProfile, demoProfile]\<rparr>"
  let ?pd = "(onlyId ''a'')\<lparr>d_currentStatus := Some OUT, d_lastExit := Value 9\<rparr>"
  have h: "0 < length (profiles ?s) \<and> p_id (profiles ?s ! 0) = d_id ?pd
      \<and> (\<forall>j < 0. p_id (profiles ?s ! j) \<noteq> d_id ?pd)"
    by (simp add: demoProfile_def onlyId_def)
  from updateProfile_merge [of ?s ?pd exampleISOString demoProfile] h
  have c1: "profiles (updateProfile exampleISOString ?pd ?s)
      = (profiles ?s)[0 := spreadProfile (profiles ?s ! 0) ?pd]"
    by blast
  have n: "\<forall>p \<in> set (profiles (emptyStore\<lparr>profiles := [demoProfile]\<rparr>)). p_id p \<noteq> d_id (onlyId ''b'')"
    by (simp add: demoProfile_def onlyId_def)
  from updateProfile_merge [of "emptyStore\<lparr>profiles := [demoProfile]\<rparr>" "onlyId ''b''"
      exampleISOString demoProfile] n
  have c2: "profiles (updateProfile exampleISOString (onlyId ''b'') (emptyStore\<lparr>profiles := [demoProfile]\<rparr>))
      = profiles (emptyStore\<lparr>profiles := [demoProfile]\<rparr>) @ [spreadProfile defaultProfile (onlyId ''b'')]"
    by blast
  show ?thesis
    unfolding c1 c2
    by (simp add: spreadProfile_def onlyId_def defaultProfile_def demoProfile_def)
qed

section \<open>The pipeline: the same-day gate\<close>

lemma records_writeAttendance:
  "records (writeAttendance api c t pdata feat fd s)
     = newRecordOf (newRecordId c) (recordTime c)
         \<lparr> i_name = p_name pdata, i_email = p_email pdata, i_image = imageData c, i_type = t,
           i_imageFeatures = feat, i_faceDescriptor = fd \<rparr> # records s"
  by (simp add: writeAttendance_def addRecord_def Let_def records_updateProfile)

lemma sim65: "exampleCompare ''0123456789'' ''img'' = 0.65"
  by (simp add: exampleCompare_def)

lemma sim75: "exampleCompare ''01234567'' ''img'' = 0.75"
  by (simp add: exampleCompare_def)

lemma lower_ann: "asciiLower ''ANN@x.com'' = ''ann@x.com''" "asciiLower ''ann@x.com'' = ''ann@x.com''"
  by (simp_all add: asciiLower_def)

lemma resolve_ann65:
  "resolve examplePlatform (captureOf ''0123456789'' ''ANN@x.com'') annInStore = Inr (Known demoProfile, None, None)"
  by (simp add: resolve_def faceStage_def imageStage_def simpleStage_def resolveIdentity_def
        captureOf_def annInStore_def emptyStore_def examplePlatform_def noMatch_def lower_ann
        demoProfile_def scanStep_def sim65)

lemma resolve_ann75:
  "resolve examplePlatform (captureOf ''01234567'' ''ANN@x.com'') annInStore = Inr (Known demoProfile, None, None)"
  by (simp add: resolve_def faceStage_def imageStage_def simpleStage_def resolveIdentity_def
        captureOf_def annInStore_def emptyStore_def examplePlatform_def noMatch_def lower_ann
        demoProfile_def scanStep_def sim75)

lemma today_ann:
  "spec_getTodayEntryRecord byId utcDay 10 annInStore (p_id demoProfile) = Some annEntry"
  by (simp add: spec_getTodayEntryRecord_def byId_def utcDay_def annInStore_def annEntry_def
        demoProfile_def)

text \<open>
  Claim C1. Take a run whose image loads and which resolves to a known profile whose
  transition is EXIT, and let the store's \<^verbatim>\<open>getTodayEntryRecord\<close> return an ENTRY record
  of today for that profile. If the pixel confidence between the captured image and that
  record's image is below 0.7, the run is rejected and the store is exactly what it was:
  no record added, no profile changed. If it is at least 0.7, the run completes and the
  records are the old ones with one new record, of type EXIT, in front.
\<close>

theorem sameDay_gate:
  assumes "imageLoads c"
    and "resolve api c s = Inr (Known p, fd, feat)"
    and "entryTypeFor p = EXIT"
    and "getTodayEntryRecord s (p_id p) = Some todayEntry"
  shows "(api_simpleImageCompare api (imageData c) (r_image todayEntry) < 0.7 \<longrightarrow>
            processAttendance api getTodayEntryRecord c s = (CheckoutFailed, s))
       \<and> (0.7 \<le> api_simpleImageCompare api (imageData c) (r_image todayEntry) \<longrightarrow>
            fst (processAttendance api getTodayEntryRecord c s) = Complete
          \<and> (\<exists>record. records (snd (processAttendance api getTodayEntryRecord c s)) = record # records s
                \<and> r_type record = EXIT \<and> r_image record = imageData c))"
  using assms
  by (simp add: processAttendance_def checkoutMismatch_def records_writeAttendance newRecordOf_def)

theorem sameDay_gate_witness:
  "imageLoads (captureOf ''0123456789'' ''ANN@x.com'')
   \<and> resolve examplePlatform (captureOf ''0123456789'' ''ANN@x.com'') annInStore = Inr (Known demoProfile, None, None)
   \<and> entryTypeFor demoProfile = EXIT
   \<and> spec_getTodayEntryRecord byId utcDay 10 annInStore (p_id demoProfile) = Some annEntry
   \<and> api_simpleImageCompare examplePlatform (imageData (captureOf ''0123456789'' ''ANN@x.com'')) (r_image annEntry) < 0.7
   \<and> processAttendance examplePlatform (spec_getTodayEntryRecord byId utcDay 10)
         (captureOf ''0123456789'' ''ANN@x.com'') annInStore = (CheckoutFailed, annInStore)
   \<and> imageLoads (captureOf ''01234567'' ''ANN@x.com'')
   \<and> resolve examplePlatform (captureOf ''01234567'' ''ANN@x.com'') annInStore = Inr (Known demoProfile, None, None)
   \<and> 0.7 \<le> api_simpleImageCompare examplePlatform (imageData (captureOf ''01234567'' ''ANN@x.com'')) (r_image annEntry)
   \<and> fst (processAttendance examplePlatform (spec_getTodayEntryRecord byId utcDay 10)
         (captureOf ''01234567'' ''ANN@x.com'') annInStore) = Complete
   \<and> map r_type (records (snd (processAttendance examplePlatform (spec_getTodayEntryRecord byId utcDay 10)
         (captureOf ''01234567'' ''ANN@x.com'') annInStore))) = [EXIT, ENTRY]"
proof -
  have l1: "imageLoads (captureOf ''0123456789'' ''ANN@x.com'')"
    and l2: "imageLoads (captureOf ''01234567'' ''ANN@x.com'')"
    by (simp_all add: captureOf_def)
  have ex: "entryTypeFor demoProfile = EXIT"
    by (simp add: entryTypeFor_def demoProfile_def)
  have s1: "api_simpleImageCompare examplePlatform (imageData (captureOf ''0123456789'' ''ANN@x.com'')) (r_image annEntry) < 0.7"
    by (simp add: examplePlatform_def captureOf_def annEntry_def sim65)
  have s2: "0.7 \<le> api_simpleImageCompare examplePlatform (imageData (captureOf ''01234567'' ''ANN@x.com'')) (r_image annEntry)"
    by (simp add: examplePlatform_def captureOf_def annEntry_def sim75)
  from sameDay_gate [where getTodayEntryRecord = "spec_getTodayEntryRecord byId utcDay 10", OF l1 resolve_ann65 ex today_ann] s1
  have r1: "processAttendance examplePlatform (spec_getTodayEntryRecord byId utcDay 10)
         (captureOf ''0123456789'' ''ANN@x.com'') annInStore = (CheckoutFailed, annInStore)"
    by blast
  from sameDay_gate [where getTodayEntryRecord = "spec_getTodayEntryRecord byId utcDay 10", OF l2 resolve_ann75 ex today_ann] s2
  obtain newest where r2: "fst (processAttendance examplePlatform (spec_getTodayEntryRecord byId utcDay 10)
         (captureOf ''01234567'' ''ANN@x.com'') annInStore) = Complete"
    "records (snd (processAttendance examplePlatform (spec_getTodayEntryRecord byId utcDay 10)
         (captureOf ''01234567'' ''ANN@x.com'') annInStore)) = newest # records annInStore"
    "r_type newest = EXIT"
    by blast
  have "map r_type (records annInStore) = [ENTRY]"
    by (simp add: annInStore_def annEntry_def)
  with l1 l2 ex s1 s2 r1 r2 resolve_ann65 resolve_ann75 today_ann show ?thesis
    by simp
qed

section \<open>getTodayEntryRecord\<close>

text \<open>
  Claim C3. \<^verbatim>\<open>getTodayEntryRecord(attendeeId)\<close> returns a record of the store that is
  for that attendee, has type ENTRY and a timestamp on the current calendar day; it is
  the first such record of the newest-first sequence, hence, the timestamps not
  increasing along the sequence, one with the latest timestamp among them; and it
  returns nothing exactly when the store has no such record.
\<close>

theorem getTodayEntryRecord_spec:
  "(\<forall>r. spec_getTodayEntryRecord forAttendee localDay now s a = Some r \<longrightarrow>
        r \<in> set (records s) \<and> forAttendee r a \<and> r_type r = ENTRY
      \<and> localDay (r_timestamp r) = localDay now
      \<and> (\<exists>i < length (records s). records s ! i = r
            \<and> (\<forall>j < i. \<not> (forAttendee (records s ! j) a \<and> r_type (records s ! j) = ENTRY
                          \<and> localDay (r_timestamp (records s ! j)) = localDay now)))
      \<and> (sorted_wrt (\<lambda>x y. r_timestamp y \<le> r_timestamp x) (records s) \<longrightarrow>
            (\<forall>r' \<in> set (records s). forAttendee r' a \<and> r_type r' = ENTRY
                  \<and> localDay (r_timestamp r') = localDay now \<longrightarrow> r_timestamp r' \<le> r_timestamp r)))
   \<and> (spec_getTodayEntryRecord forAttendee localDay now s a = None \<longleftrightarrow>
        \<not> (\<exists>r \<in> set (records s). forAttendee r a \<and> r_type r = ENTRY
                \<and> localDay (r_timestamp r) = localDay now))"
proof (intro conjI allI impI)
  fix r assume found: "spec_getTodayEntryRecord forAttendee localDay now s a = Some r"
  let ?P = "\<lambda>x. forAttendee x a \<and> r_type x = ENTRY \<and> localDay (r_timestamp x) = localDay now"
  from found obtain i where i: "i < length (records s)" "?P (records s ! i)" "r = records s ! i"
    "\<forall>j < i. \<not> ?P (records s ! j)"
    unfolding spec_getTodayEntryRecord_def find_Some_iff by blast
  from i show "r \<in> set (records s)" by simp
  from i show "forAttendee r a" and "r_type r = ENTRY" and "localDay (r_timestamp r) = localDay now"
    by simp_all
  from i show "\<exists>i < length (records s). records s ! i = r \<and> (\<forall>j < i. \<not> ?P (records s ! j))"
    by blast
  show "\<forall>r' \<in> set (records s). ?P r' \<longrightarrow> r_timestamp r' \<le> r_timestamp r"
    if sorted: "sorted_wrt (\<lambda>x y. r_timestamp y \<le> r_timestamp x) (records s)"
  proof (intro ballI impI)
    fix r' assume "r' \<in> set (records s)" and P: "?P r'"
    then obtain k where k: "k < length (records s)" "r' = records s ! k"
      by (auto simp: in_set_conv_nth)
    with i(4) P have "\<not> k < i" by auto
    then have "i = k \<or> i < k" by auto
    then show "r_timestamp r' \<le> r_timestamp r"
    proof
      assume "i = k"
      with k i show ?thesis by simp
    next
      assume "i < k"
      with sorted k(1) have "r_timestamp (records s ! k) \<le> r_timestamp (records s ! i)"
        by (simp add: sorted_wrt_iff_nth_less)
      with k i show ?thesis by simp
    qed
  qed
next
  show "spec_getTodayEntryRecord forAttendee localDay now s a = None \<longleftrightarrow>
        \<not> (\<exists>r \<in> set (records s). forAttendee r a \<and> r_type r = ENTRY
                \<and> localDay (r_timestamp r) = localDay now)"
    by (auto simp: spec_getTodayEntryRecord_def find_None_iff)
qed

theorem getTodayEntryRecord_spec_witness:
  "spec_getTodayEntryRecord byId utcDay 10 annInStore ''a'' = Some annEntry
   \<and> annEntry \<in> set (records annInStore) \<and> byId annEntry ''a'' \<and> r_type annEntry = ENTRY
   \<and> utcDay (r_timestamp annEntry) = utcDay 10
   \<and> sorted_wrt (\<lambda>x y. r_timestamp y \<le> r_timestamp x) (records annInStore)
   \<and> spec_getTodayEntryRecord byId utcDay 86400010 annInStore ''a'' = None"
proof -
  have h: "spec_getTodayEntryRecord byId utcDay 10 annInStore ''a'' = Some annEntry"
    by (simp add: spec_getTodayEntryRecord_def byId_def utcDay_def annInStore_def annEntry_def)
  have n: "\<not> (\<exists>r \<in> set (records annInStore). byId r ''a'' \<and> r_type r = ENTRY
                \<and> utcDay (r_timestamp r) = utcDay 86400010)"
    by (simp add: byId_def utcDay_def annInStore_def annEntry_def)
  have srt: "sorted_wrt (\<lambda>x y. r_timestamp y \<le> r_timestamp x) (records annInStore)"
    by (simp add: annInStore_def)
  from getTodayEntryRecord_spec [of byId utcDay 10 annInStore "''a''"] h
  have "annEntry \<in> set (records annInStore) \<and> byId annEntry ''a'' \<and> r_type annEntry = ENTRY
     \<and> utcDay (r_timestamp annEntry) = utcDay 10"
    by blast
  moreover from getTodayEntryRecord_spec [of byId utcDay 86400010 annInStore "''a''"] n
  have "spec_getTodayEntryRecord byId utcDay 86400010 annInStore ''a'' = None"
    by blast
  ultimately show ?thesis using h srt by simp
qed

section \<open>The pipeline: records and profiles\<close>

lemma profileDataOf_id: "d_id (profileDataOf pdata) = p_id pdata"
  by (simp add: profileDataOf_def)

lemma spread_profileDataOf:
  "p_id (spreadProfile old (profileDataOf pdata)) = p_id pdata"
  "p_name (spreadProfile old (profileDataOf pdata)) = p_name pdata"
  "p_email (spreadProfile old (profileDataOf pdata)) = p_email pdata"
  "p_lastImage (spreadProfile old (profileDataOf pdata)) = p_lastImage pdata"
  "p_currentStatus (spreadProfile old (profileDataOf pdata)) = p_currentStatus pdata"
  by (simp_all add: spreadProfile_def profileDataOf_def)

lemma getProfile_updateProfile:
  "\<exists>old. getProfile (updateProfile fmt (profileDataOf pdata) s) (p_id pdata)
      = Some (spreadProfile old (profileDataOf pdata))"
proof (cases "getProfile s (p_id pdata)")
  case None
  then have "profiles (updateProfile fmt (profileDataOf pdata) s)
      = profiles s @ [spreadProfile defaultProfile (profileDataOf pdata)]"
    by (intro updateProfile_new) (simp add: profileDataOf_id)
  moreover from None have "find (\<lambda>p. p_id p = p_id pdata) (profiles s) = None"
    by (simp add: getProfile_def)
  ultimately have "getProfile (updateProfile fmt (profileDataOf pdata) s) (p_id pdata)
      = Some (spreadProfile defaultProfile (profileDataOf pdata))"
    by (simp add: getProfile_def find_append_new spread_profileDataOf)
  then show ?thesis by blast
next
  case (Some old)
  then have "getProfile (updateProfile fmt (profileDataOf pdata) s) (d_id (profileDataOf pdata))
      = Some (spreadProfile old (profileDataOf pdata))"
    by (intro updateProfile_existing) (simp add: profileDataOf_id)
  then show ?thesis by (auto simp: profileDataOf_id)
qed

lemma writeAttendance_profile:
  "\<exists>prof. getProfile (writeAttendance api c t pdata feat fd s) (p_id pdata) = Some prof
      \<and> p_id prof = p_id pdata \<and> p_name prof = p_name pdata \<and> p_email prof = p_email pdata
      \<and> p_currentStatus prof = p_currentStatus pdata"
proof -
  obtain s' where s': "snd (addRecord (api_toISOString api) (newRecordId c) (recordTime c)
             \<lparr> i_name = p_name pdata, i_email = p_email pdata,
               i_image = imageData c, i_type = t,
               i_imageFeatures = feat, i_faceDescriptor = fd \<rparr> s) = s'"
    by simp
  then have w: "writeAttendance api c t pdata feat fd s
      = updateProfile (api_toISOString api) (profileDataOf pdata) s'"
    by (auto simp: writeAttendance_def split: prod.splits)
  from getProfile_updateProfile [of "api_toISOString api" pdata s']
  obtain old where "getProfile (updateProfile (api_toISOString api) (profileDataOf pdata) s') (p_id pdata)
      = Some (spreadProfile old (profileDataOf pdata))"
    by blast
  then show ?thesis
    unfolding w by (simp add: spread_profileDataOf)
qed

text \<open>
  What a completed run leaves behind: one new record at index 0, with the UUID drawn by
  \<^verbatim>\<open>addRecord\<close> as its id and with the name and email of the profile the run was
  attributed to; that profile is stored under \<^verbatim>\<open>userId\<close>, and its \<^verbatim>\<open>currentStatus\<close>
  is IN if and only if the record's type is ENTRY.
\<close>

lemma completed_run:
  assumes "resolve api c s = Inr (identity, fd, feat)"
    and "fst (processAttendance api getTodayEntryRecord c s) = Complete"
  shows "\<exists>newest prof.
           records (snd (processAttendance api getTodayEntryRecord c s)) = newest # records s
         \<and> r_id newest = newRecordId c
         \<and> getProfile (snd (processAttendance api getTodayEntryRecord c s)) (userIdOf c identity) = Some prof
         \<and> p_id prof = userIdOf c identity
         \<and> r_name newest = p_name prof \<and> r_email newest = p_email prof
         \<and> (p_currentStatus prof = IN \<longleftrightarrow> r_type newest = ENTRY)"
proof (cases identity)
  case NewUser
  let ?pdata = "newProfileData c feat fd"
  from assms NewUser have run: "processAttendance api getTodayEntryRecord c s
      = (Complete, writeAttendance api c ENTRY ?pdata feat fd s)"
    by (auto simp: processAttendance_def split: if_splits)
  from writeAttendance_profile [of api c ENTRY ?pdata feat fd s]
  obtain prof where "getProfile (writeAttendance api c ENTRY ?pdata feat fd s) (p_id ?pdata) = Some prof"
    "p_id prof = p_id ?pdata" "p_name prof = p_name ?pdata" "p_email prof = p_email ?pdata"
    "p_currentStatus prof = p_currentStatus ?pdata"
    by blast
  with NewUser show ?thesis
    unfolding run
    by (simp add: records_writeAttendance newRecordOf_def userIdOf_def newProfileData_def)
next
  case (Known p)
  let ?t = "entryTypeFor p"
  let ?pdata = "knownProfileData c ?t p feat fd"
  from assms Known have run: "processAttendance api getTodayEntryRecord c s
      = (Complete, writeAttendance api c ?t ?pdata feat fd s)"
    by (auto simp: processAttendance_def Let_def split: if_splits)
  from writeAttendance_profile [of api c ?t ?pdata feat fd s]
  obtain prof where "getProfile (writeAttendance api c ?t ?pdata feat fd s) (p_id ?pdata) = Some prof"
    "p_id prof = p_id ?pdata" "p_name prof = p_name ?pdata" "p_email prof = p_email ?pdata"
    "p_currentStatus prof = p_currentStatus ?pdata"
    by blast
  with Known show ?thesis
    unfolding run
    by (simp add: records_writeAttendance newRecordOf_def userIdOf_def knownProfileData_def)
qed

text \<open>
  Claim C4 says that the record created on an attendee's first enrollment carries the
  same id as the profile created for that attendee, as the repository's integration test
  builds it (\<^verbatim>\<open>updateProfile({ id: record.id, ... })\<close>). \<^verbatim>\<open>processAttendance\<close> does not:
  it draws one UUID for the profile, and \<^verbatim>\<open>addRecord\<close> draws another for the record
  and is never given the first. Here a first enrollment into the empty store completes
  and leaves a record with the id \<open>''r9''\<close> and a profile with the id \<open>''u9''\<close>.
\<close>

theorem first_enrollment_ids:
  "fst (processAttendance examplePlatform (spec_getTodayEntryRecord byId utcDay 10)
          (captureOf ''img'' ''bob@x.com'') emptyStore) = Complete
   \<and> map r_id (records (snd (processAttendance examplePlatform (spec_getTodayEntryRecord byId utcDay 10)
          (captureOf ''img'' ''bob@x.com'') emptyStore))) = [''r9'']
   \<and> map p_id (profiles (snd (processAttendance examplePlatform (spec_getTodayEntryRecord byId utcDay 10)
          (captureOf ''img'' ''bob@x.com'') emptyStore))) = [''u9'']"
  by (simp add: processAttendance_def resolve_def faceStage_def imageStage_def simpleStage_def
        resolveIdentity_def captureOf_def emptyStore_def examplePlatform_def noMatch_def
        writeAttendance_def addRecord_def updateProfile_def Let_def newRecordOf_def
        newProfileData_def profileDataOf_def spreadProfile_def)

section \<open>Saving and loading\<close>


















section \<open>Loading from arbitrary blobs\<close>








end
